theory Spec2Isabelle
  imports Main
begin

section \<open>Text, bytes and the string operations of the scripts\<close>

text \<open>
  A Python \<open>str\<close> is represented by its UTF-8 encoding, a \<open>bytes\<close> value by its bytes;
  both are \<open>char list\<close>. Concatenation, \<open>format\<close> with \<open>{}\<close>, \<open>startswith\<close> and
  \<open>split\<close> at an ASCII separator act on the encoding exactly as they act on the code
  points, since a byte below \<open>0x80\<close> never occurs inside a multi-byte character.
\<close>

type_synonym bytes = string

definition nl :: char where
  "nl = CHR 0x0A"

text \<open>
  \<open>bytes.decode()\<close>: strict UTF-8. The well-formed byte sequences are those of the
  Unicode standard (no overlong forms, no surrogates, nothing above U+10FFFF); on any
  other input Python raises \<open>UnicodeDecodeError\<close>, here \<open>None\<close>.
\<close>

definition continuation :: "nat \<Rightarrow> bool" where
  "continuation b = (0x80 \<le> b \<and> b \<le> 0xBF)"

definition second_byte :: "nat \<Rightarrow> nat \<Rightarrow> bool" where
  "second_byte a b =
     ((if a = 0xE0 then 0xA0 else if a = 0xF0 then 0x90 else 0x80) \<le> b \<and>
      b \<le> (if a = 0xED then 0x9F else if a = 0xF4 then 0x8F else 0xBF))"

fun utf8_valid :: "nat list \<Rightarrow> bool" where
  "utf8_valid [] = True"
| "utf8_valid (a # bs) =
     (if a < 0x80 then utf8_valid bs
      else if 0xC2 \<le> a \<and> a \<le> 0xDF then
        (case bs of b # r \<Rightarrow> continuation b \<and> utf8_valid r | _ \<Rightarrow> False)
      else if 0xE0 \<le> a \<and> a \<le> 0xEF then
        (case bs of b # c # r \<Rightarrow> second_byte a b \<and> continuation c \<and> utf8_valid r
         | _ \<Rightarrow> False)
      else if 0xF0 \<le> a \<and> a \<le> 0xF4 then
        (case bs of b # c # d # r \<Rightarrow>
           second_byte a b \<and> continuation c \<and> continuation d \<and> utf8_valid r
         | _ \<Rightarrow> False)
      else False)"

definition decode :: "bytes \<Rightarrow> string option" where
  "decode b = (if utf8_valid (map of_char b) then Some b else None)"

text \<open>
  \<open>str.split(sep)\<close> for a one-character separator: every occurrence splits, empty
  fields are kept, and the result is never empty (\<open>''.split(sep) == ['']\<close>), so the
  first branch of the \<open>case\<close> is never taken.
\<close>

fun str_split :: "char \<Rightarrow> string \<Rightarrow> string list" where
  "str_split sep [] = [[]]"
| "str_split sep (c # cs) =
     (if c = sep then [] # str_split sep cs
      else
        (case str_split sep cs of
           [] \<Rightarrow> [[c]]
         | field # fields \<Rightarrow> (c # field) # fields))"

text \<open>\<open>str.split(sep, 1)\<close>: at most one split, at the first occurrence of \<open>sep\<close>.\<close>

fun str_split1 :: "char \<Rightarrow> string \<Rightarrow> string list" where
  "str_split1 sep [] = [[]]"
| "str_split1 sep (c # cs) =
     (if c = sep then [[], cs]
      else
        (case str_split1 sep cs of
           [] \<Rightarrow> [[c]]
         | field # fields \<Rightarrow> (c # field) # fields))"

definition startswith :: "string \<Rightarrow> string \<Rightarrow> bool" where
  "startswith s p = (take (length p) s = p)"

text \<open>
  \<open>str.strip()\<close> removes white space at both ends. Python's white space is U+0009 to
  U+000D, U+001C to U+0020, U+0085, U+00A0, U+1680, U+2000 to U+200A, U+2028, U+2029,
  U+202F, U+205F and U+3000; the list holds their UTF-8 encodings.
\<close>

definition whitespace :: "string list" where
  "whitespace =
     map (\<lambda>c. [c])
       [CHR 0x09, CHR 0x0A, CHR 0x0B, CHR 0x0C, CHR 0x0D,
        CHR 0x1C, CHR 0x1D, CHR 0x1E, CHR 0x1F, CHR 0x20] @
     [[CHR 0xC2, CHR 0x85], [CHR 0xC2, CHR 0xA0], [CHR 0xE1, CHR 0x9A, CHR 0x80]] @
     map (\<lambda>c. [CHR 0xE2, CHR 0x80, c])
       [CHR 0x80, CHR 0x81, CHR 0x82, CHR 0x83, CHR 0x84, CHR 0x85, CHR 0x86, CHR 0x87,
        CHR 0x88, CHR 0x89, CHR 0x8A, CHR 0xA8, CHR 0xA9, CHR 0xAF] @
     [[CHR 0xE2, CHR 0x81, CHR 0x9F], [CHR 0xE3, CHR 0x80, CHR 0x80]]"

definition leading :: "string list \<Rightarrow> string \<Rightarrow> nat" where
  "leading ws s =
     (case find (\<lambda>w. w \<noteq> [] \<and> take (length w) s = w) ws of
        None \<Rightarrow> 0
      | Some w \<Rightarrow> length w)"

function strip_front :: "string list \<Rightarrow> string \<Rightarrow> string" where
  "strip_front ws s =
     (let n = leading ws s in if n = 0 then s else strip_front ws (drop n s))"
  by pat_completeness auto

lemma leading_le: "leading ws s \<le> length s"
proof (cases "find (\<lambda>w. w \<noteq> [] \<and> take (length w) s = w) ws")
  case None
  then show ?thesis by (simp add: leading_def)
next
  case (Some w)
  then have "take (length w) s = w"
    by (auto simp: find_Some_iff)
  then have "length (take (length w) s) = length w"
    by simp
  then have "length w \<le> length s"
    by simp
  with Some show ?thesis by (simp add: leading_def)
qed

termination strip_front
proof (relation "measure (\<lambda>(ws, s). length s)")
  show "wf (measure (\<lambda>(ws, s). length s))" by simp
next
  fix ws :: "string list" and s :: string and n
  assume "n = leading ws s" and "n \<noteq> 0"
  moreover have "leading ws s \<le> length s" by (rule leading_le)
  ultimately show "((ws, drop n s), (ws, s)) \<in> measure (\<lambda>(ws, s). length s)"
    by simp
qed

declare strip_front.simps [simp del]

definition lstrip :: "string \<Rightarrow> string" where
  "lstrip s = strip_front whitespace s"

definition rstrip :: "string \<Rightarrow> string" where
  "rstrip s = rev (strip_front (map rev whitespace) (rev s))"

definition strip :: "string \<Rightarrow> string" where
  "strip s = rstrip (lstrip s)"

text \<open>\<open>str(n)\<close> for an \<open>int\<close>: decimal digits, with a minus sign when negative.\<close>

fun str_nat :: "nat \<Rightarrow> string" where
  "str_nat n =
     (if n < 10 then [char_of (48 + n)]
      else str_nat (n div 10) @ [char_of (48 + n mod 10)])"

definition str_int :: "int \<Rightarrow> string" where
  "str_int i = (if i < 0 then ''-'' @ str_nat (nat (- i)) else str_nat (nat i))"

section \<open>Processes: output, exits and uncaught exceptions\<close>

text \<open>
  A run ends by returning, by \<open>sys.exit(code)\<close>, or by an exception nobody catches
  (the interpreter then prints a traceback and the exit status is 1).
\<close>

datatype exn = UnicodeDecodeError | OSError | KeyError | Exception string

datatype 'a outcome = Return 'a | SysExit int | Uncaught exn

definition return :: "'a \<Rightarrow> 's \<Rightarrow> 'a outcome \<times> 's" where
  "return a s = (Return a, s)"

definition sys_exit :: "int \<Rightarrow> 's \<Rightarrow> 'a outcome \<times> 's" where
  "sys_exit code s = (SysExit code, s)"

definition raise :: "exn \<Rightarrow> 's \<Rightarrow> 'a outcome \<times> 's" where
  "raise e s = (Uncaught e, s)"

text \<open>Sequencing of two statements: the second runs only if the first returns.\<close>

definition andthen ::
  "('s \<Rightarrow> 'a outcome \<times> 's) \<Rightarrow> ('a \<Rightarrow> 's \<Rightarrow> 'b outcome \<times> 's) \<Rightarrow> 's \<Rightarrow> 'b outcome \<times> 's"
where
  "andthen m f s =
     (case m s of
        (Return a, s') \<Rightarrow> f a s'
      | (SysExit code, s') \<Rightarrow> (SysExit code, s')
      | (Uncaught e, s') \<Rightarrow> (Uncaught e, s'))"

text \<open>
  What the installer does to the outside: the lines it prints, in order, and the
  argument vectors it hands to \<open>subprocess.Popen\<close>, in order.
\<close>

record io =
  printed :: "string list"
  spawned :: "string list list"

definition start :: io where
  "start = \<lparr>printed = [], spawned = []\<rparr>"

definition print :: "string \<Rightarrow> io \<Rightarrow> unit outcome \<times> io" where
  "print m s = (Return (), s\<lparr>printed := printed s @ [m]\<rparr>)"

fun print_all :: "string list \<Rightarrow> io \<Rightarrow> unit outcome \<times> io" where
  "print_all [] s = (Return (), s)"
| "print_all (m # ms) s = andthen (print m) (\<lambda>_. print_all ms) s"

section \<open>The environment of \<open>setup/install.py\<close>\<close>

text \<open>
  \<open>Completed rc out err\<close>: the command was launched and \<open>communicate()\<close> returned.
  \<open>Failed t v tb frames\<close>: \<open>Popen\<close> or \<open>communicate\<close> raised; the first three strings
  are the renderings of \<open>sys.exc_info()\<close>, the fourth is what \<open>traceback.format_exc()\<close>
  returns after its header line \<open>Traceback (most recent call last):\<close>.
\<close>

datatype proc = Completed int bytes bytes | Failed string string string string

text \<open>
  The requirements file: absent (\<open>os.path.isfile\<close> is false), present but \<open>open\<close> or
  reading raises, or present with the given text (newlines already translated).
\<close>

datatype textfile = NoFile | Unreadable | Text string

text \<open>
  \<open>popen w n argv\<close> is what launching \<open>argv\<close> does when \<open>n\<close> commands were launched
  before it, so the same command may succeed once and fail later.
\<close>

record world =
  root_dir :: string
  reqfile :: textfile
  environ :: "string \<Rightarrow> string option"
  isdir :: "string \<Rightarrow> bool"
  popen :: "nat \<Rightarrow> string list \<Rightarrow> proc"

definition communicate :: "world \<Rightarrow> string list \<Rightarrow> io \<Rightarrow> proc \<times> io" where
  "communicate w argv s =
     (popen w (length (spawned s)) argv, s\<lparr>spawned := spawned s @ [argv]\<rparr>)"

section \<open>\<open>setup/install.py\<close>\<close>

text \<open>
  The functions of the script, in the order of the calls. \<open>ROOT_DIR\<close> is \<open>root_dir w\<close> and
  \<open>os.sep\<close> is \<open>/\<close>. The test at import time that the script sits in
  \<open>.../pattoo-web/setup\<close> (exit code 2 otherwise) comes before \<open>main\<close> and is left out.
\<close>

definition log :: "string \<Rightarrow> io \<Rightarrow> 'a outcome \<times> io" where
  "log message =
     andthen (print ([nl] @ ''PATTOO Error: '' @ message)) (\<lambda>_. sys_exit 3)"

definition run_script ::
  "world \<Rightarrow> string \<Rightarrow> bool \<Rightarrow> io \<Rightarrow> (int \<times> bytes \<times> bytes) outcome \<times> io"
where
  "run_script w cli_string die =
     andthen (print (''Running Command: \"'' @ cli_string @ ''\"'')) (\<lambda>_ s.
       let do_command_list = str_split CHR '' '' cli_string;
           (p, s') = communicate w do_command_list s;
           (messages, returncode, stdoutdata, stderrdata) =
             (case p of
                Completed rc out err \<Rightarrow> ([], rc, out, err)
              | Failed exc_type exc_value exc_traceback frames \<Rightarrow>
                  ([''Bug: Exception Type:'' @ exc_type @
                    '', Exception Instance: '' @ exc_value @
                    '', Stack Trace Object: '' @ exc_traceback @ '']    '',
                    ''Traceback (most recent call last):'' @ [nl] @ frames],
                   1, [], []))
       in if returncode \<noteq> 0 then
            (case decode stdoutdata of
               None \<Rightarrow> raise UnicodeDecodeError s'
             | Some out_text \<Rightarrow>
                 (case decode stderrdata of
                    None \<Rightarrow> raise UnicodeDecodeError s'
                  | Some err_text \<Rightarrow>
                      andthen
                        (print_all
                           (messages @ [''Return code:'' @ str_int returncode] @
                            map (\<lambda>line. ''STDOUT: '' @ line) (str_split nl out_text) @
                            map (\<lambda>line. ''STDERR: '' @ line) (str_split nl err_text)))
                        (\<lambda>_. if die then sys_exit 2
                             else return (returncode, stdoutdata, stderrdata))
                        s'))
          else return (returncode, stdoutdata, stderrdata) s')"

text \<open>
  \<open>_fp.readline()\<close>: the text up to and including the next newline, or what is left
  when there is none; the empty string at the end of the file. The second component is
  the rest of the file.
\<close>

fun readline :: "string \<Rightarrow> string \<times> string" where
  "readline [] = ([], [])"
| "readline (c # cs) =
     (if c = nl then ([c], cs)
      else (case readline cs of (line, rest) \<Rightarrow> (c # line, rest)))"

lemma readline_length: "length (fst (readline fp)) + length (snd (readline fp)) = length fp"
  by (induction fp) (auto split: prod.splits)

text \<open>The \<open>while line:\<close> loop of \<open>check_pip3\<close>; \<open>lines\<close> is the list it appends to.\<close>

function read_requirements :: "string \<Rightarrow> string list \<Rightarrow> string list" where
  "read_requirements fp lines =
     (let line = fst (readline fp) in
      if line = [] then lines
      else
        let line' = strip line in
        read_requirements (snd (readline fp))
          (if startswith line' ''#'' \<or> line' = [] then lines else lines @ [line']))"
  by pat_completeness auto

termination read_requirements
proof (relation "measure (\<lambda>(fp, lines). length fp)")
  show "wf (measure (\<lambda>(fp, lines). length fp))" by simp
next
  fix fp :: string and lines :: "string list" and x xa
  assume "x = fst (readline fp)" and "x \<noteq> []"
  then have "0 < length (fst (readline fp))" by simp
  with readline_length [of fp] have "length (snd (readline fp)) < length fp" by arith
  then show "((snd (readline fp),
               if startswith xa ''#'' \<or> xa = [] then lines else lines @ [xa]), fp, lines)
             \<in> measure (\<lambda>(fp, lines). length fp)"
    by simp
qed

declare read_requirements.simps [simp del]

text \<open>\<open>line.split('=', 1)[0]\<close>, then \<open>.split('>', 1)[0]\<close> of that.\<close>

definition package_of :: "string \<Rightarrow> string" where
  "package_of line =
     (let package = hd (str_split1 CHR ''='' line) in hd (str_split1 CHR ''>'' package))"

text \<open>The \<open>for line in lines:\<close> loop of \<open>check_pip3\<close>.\<close>

fun check_packages :: "world \<Rightarrow> string list \<Rightarrow> io \<Rightarrow> unit outcome \<times> io" where
  "check_packages w [] = return ()"
| "check_packages w (line # lines) =
     (let package = package_of line in
      andthen (print (''??: Checking package '' @ package)) (\<lambda>_.
      andthen (run_script w (''pip3 show '' @ package) False) (\<lambda>(returncode, _, _).
      andthen
        (if returncode \<noteq> 0 then
           log (''Python3 \"'' @ package @
                ''\" package not installed or pip3 command not found. Please fix.'')
         else return ()) (\<lambda>_.
      andthen (print (''OK: package '' @ line)) (\<lambda>_.
      check_packages w lines)))))"

definition check_pip3 :: "world \<Rightarrow> io \<Rightarrow> unit outcome \<times> io" where
  "check_pip3 w =
     (let filepath = root_dir w @ ''/'' @ ''pip_requirements.txt'' in
      andthen
        (if reqfile w = NoFile then log (''Cannot find PIP3 requirements file '' @ filepath)
         else return ()) (\<lambda>_.
      case reqfile w of
        Text content \<Rightarrow> check_packages w (read_requirements content [])
      | _ \<Rightarrow> raise OSError))"

definition unset_message :: string where
  "unset_message =
     concat (map (\<lambda>l. l @ [nl])
       [''Set your PATTOO_CONFIGDIR to point to your configuration directory like this:'',
        [],
        ''$ export PATTOO_CONFIGDIR=/path/to/configuration/directory'',
        [],
        ''Then run this command again.''])"

definition notdir_message :: string where
  "notdir_message =
     concat (map (\<lambda>l. l @ [nl])
       [''Set your PATTOO_CONFIGDIR cannot be found. Set the variable to point to an '' @
        ''existing directory:'',
        [],
        ''$ export PATTOO_CONFIGDIR=/path/to/configuration/directory'',
        [],
        ''Then run this command again.''])"

definition check_config :: "world \<Rightarrow> io \<Rightarrow> unit outcome \<times> io" where
  "check_config w =
     andthen (print ''??: Checking configuration'') (\<lambda>_.
     andthen
       (if environ w ''PATTOO_CONFIGDIR'' = None then log unset_message else return ()) (\<lambda>_.
     andthen
       (case environ w ''PATTOO_CONFIGDIR'' of
          None \<Rightarrow> raise KeyError
        | Some dir \<Rightarrow> if \<not> isdir w dir then log notdir_message else return ()) (\<lambda>_.
     andthen (run_script w (root_dir w @ ''/'' @ ''setup/_check_config.py'') True) (\<lambda>_.
     print ''OK: Configuration check passed''))))"

definition next_steps_message :: string where
  "next_steps_message =
     concat (map (\<lambda>l. l @ [nl])
       [[],
        ''Hooray successful installation! Panna Cotta Time!'',
        [],
        ''Next Steps:'',
        ''    1) Start the 'bin/pattoo_webd.py' script to accept agent data.'',
        ''    2) Configure your agents to post data to this server.'',
        [],
        ''Other steps:'',
        ''    1) You can make pattoo-web a system daemon by running the scripts in the'',
        ''       'setup/systemd' directory. Visit this link for details:'',
        [],
        ''       https://github.com/PalisadoesFoundation/pattoo-web/tree/master/setup/systemd'',
        []])"

definition next_steps :: "io \<Rightarrow> unit outcome \<times> io" where
  "next_steps = print next_steps_message"

definition main :: "world \<Rightarrow> io \<Rightarrow> unit outcome \<times> io" where
  "main w =
     andthen (check_pip3 w) (\<lambda>_.
     andthen (check_config w) (\<lambda>_.
     next_steps))"

section \<open>\<open>bin/pattoo_webd.py\<close>\<close>

text \<open>
  The two service descriptors, as the constructor calls of the script build them:
  \<open>Agent(parent, config=config)\<close> and \<open>AgentAPI(parent, child, app, config=config)\<close>.
  The classes are those of the external agent runtime.
\<close>

datatype ('cfg, 'app) agent = Agent string 'cfg | AgentAPI string string 'app 'cfg

text \<open>
  Modelled from the spec: the constants of \<open>pattoo_web/constants.py\<close>; the logical
  service name and the name with the fixed proxy suffix, with the values that
  \<open>tests/test_pattoo_web/test_constants.py\<close> asserts.
\<close>

definition PATTOO_WEBD_NAME :: string where
  "PATTOO_WEBD_NAME = ''pattoo_webd''"

definition PATTOO_WEBD_PROXY :: string where
  "PATTOO_WEBD_PROXY = ''pattoo_webd-gunicorn''"

text \<open>
  Modelled from the spec: a service descriptor is
  \<open>{name, proxyName, entryPoint, config}\<close>; the name is the first constructor argument
  and the configuration the \<open>config\<close> keyword argument.
\<close>

fun agent_name :: "('cfg, 'app) agent \<Rightarrow> string" where
  "agent_name (Agent parent config) = parent"
| "agent_name (AgentAPI parent child app config) = parent"

fun agent_config :: "('cfg, 'app) agent \<Rightarrow> 'cfg" where
  "agent_config (Agent parent config) = config"
| "agent_config (AgentAPI parent child app config) = config"

text \<open>
  The collaborators of the script: what \<open>Config()\<close> does, the WSGI application
  \<open>PATTOO_WEBD\<close>, and what \<open>AgentCLI().control(agent)\<close> does when \<open>n\<close> control calls
  were made before it (it returns, exits or raises). \<open>log.env()\<close>, called before \<open>main\<close>,
  is left out, and the constructors are taken to return.
\<close>

record ('cfg, 'app) runtime =
  new_config :: "'cfg outcome"
  PATTOO_WEBD :: 'app
  control_result :: "nat \<Rightarrow> ('cfg, 'app) agent \<Rightarrow> unit outcome"

text \<open>
  The state of a run: the descriptors the script has built, in the order of the
  constructor calls, and the descriptors it has handed to \<open>control\<close>, in order.
\<close>

record ('cfg, 'app) startup =
  built :: "('cfg, 'app) agent list"
  controlled :: "('cfg, 'app) agent list"

definition Config ::
  "('cfg, 'app) runtime \<Rightarrow> ('cfg, 'app) startup \<Rightarrow> 'cfg outcome \<times> ('cfg, 'app) startup"
where
  "Config r s = (new_config r, s)"

definition build ::
  "('cfg, 'app) agent \<Rightarrow> ('cfg, 'app) startup
     \<Rightarrow> ('cfg, 'app) agent outcome \<times> ('cfg, 'app) startup"
where
  "build a s = (Return a, s\<lparr>built := built s @ [a]\<rparr>)"

definition control ::
  "('cfg, 'app) runtime \<Rightarrow> ('cfg, 'app) agent \<Rightarrow> ('cfg, 'app) startup
     \<Rightarrow> unit outcome \<times> ('cfg, 'app) startup"
where
  "control r a s =
     (control_result r (length (controlled s)) a, s\<lparr>controlled := controlled s @ [a]\<rparr>)"

definition webd_main ::
  "('cfg, 'app) runtime \<Rightarrow> ('cfg, 'app) startup \<Rightarrow> unit outcome \<times> ('cfg, 'app) startup"
where
  "webd_main r =
     andthen (Config r) (\<lambda>config.
     andthen (build (Agent PATTOO_WEBD_PROXY config)) (\<lambda>agent_gunicorn.
     andthen
       (build (AgentAPI PATTOO_WEBD_NAME PATTOO_WEBD_PROXY (PATTOO_WEBD r) config))
       (\<lambda>agent_api.
     andthen (control r agent_api) (\<lambda>_.
     control r agent_gunicorn))))"

section \<open>Vocabulary of the statements\<close>

text \<open>
  The lines of a text file, as successive calls of \<open>readline\<close> deliver them (each with
  its newline, the last one possibly without).
\<close>

function file_lines :: "string \<Rightarrow> string list" where
  "file_lines fp =
     (if fst (readline fp) = [] then []
      else fst (readline fp) # file_lines (snd (readline fp)))"
  by pat_completeness auto

termination file_lines
proof (relation "measure length")
  show "wf (measure length)" by simp
next
  fix fp :: string
  assume "fst (readline fp) \<noteq> []"
  then have "0 < length (fst (readline fp))" by simp
  with readline_length [of fp] have "length (snd (readline fp)) < length fp" by arith
  then show "(snd (readline fp), fp) \<in> measure length" by simp
qed

declare file_lines.simps [simp del]

text \<open>A stripped line is kept when it is neither a comment nor blank.\<close>

definition kept :: "string \<Rightarrow> bool" where
  "kept l = (\<not> (startswith l ''#'' \<or> l = []))"

text \<open>
  The state after \<open>_run_script\<close> announced a command and handed it to \<open>Popen\<close>, and the
  state after \<open>check_pip3\<close> did both for the package of a line.
\<close>

definition announced :: "string \<Rightarrow> io \<Rightarrow> io" where
  "announced cli_string s =
     s\<lparr>printed := printed s @ [''Running Command: \"'' @ cli_string @ ''\"''],
       spawned := spawned s @ [str_split CHR '' '' cli_string]\<rparr>"

definition pip3_show :: "string \<Rightarrow> string list" where
  "pip3_show line = str_split CHR '' '' (''pip3 show '' @ package_of line)"

definition probing :: "string \<Rightarrow> io \<Rightarrow> io" where
  "probing line s =
     announced (''pip3 show '' @ package_of line)
       (s\<lparr>printed := printed s @ [''??: Checking package '' @ package_of line]\<rparr>)"

definition missing_message :: "string \<Rightarrow> string" where
  "missing_message package =
     ''Python3 \"'' @ package @
     ''\" package not installed or pip3 command not found. Please fix.''"

definition requirements_path :: "world \<Rightarrow> string" where
  "requirements_path w = root_dir w @ ''/'' @ ''pip_requirements.txt''"

text \<open>
  Every line the two checks print differs from the next-steps message, which starts with
  an empty line followed by \<open>Hooray\<close>: \<open>plain\<close> holds of all of them. \<open>extends s s'\<close>: the
  run from \<open>s\<close> to \<open>s'\<close> only added plain lines to the output.
\<close>

definition plain :: "string \<Rightarrow> bool" where
  "plain l = (take 2 l \<noteq> [nl, CHR ''H''])"

definition extends :: "io \<Rightarrow> io \<Rightarrow> bool" where
  "extends s s' = (\<exists>ls. printed s' = printed s @ ls \<and> list_all plain ls)"

definition config_script :: "world \<Rightarrow> string" where
  "config_script w = root_dir w @ ''/'' @ ''setup/_check_config.py''"

text \<open>
  What the checks look at. A command exits 0 when it was launched and its return code
  is 0. The packages of the kept lines are present when, launched in order from the
  \<open>n\<close>-th command on, \<open>pip3 show\<close> exits 0 for each. The dependencies are in order when
  the requirements file can be read and its packages are present; the configuration is
  in order when \<open>PATTOO_CONFIGDIR\<close> is set, names a directory, and the configuration
  script, launched as the \<open>n\<close>-th command, exits 0. \<open>package_report\<close> and
  \<open>config_report\<close> are the lines a passing check prints.
\<close>

fun exit_zero :: "proc \<Rightarrow> bool" where
  "exit_zero (Completed rc out err) = (rc = 0)"
| "exit_zero (Failed t v tb frames) = False"

fun packages_present :: "world \<Rightarrow> nat \<Rightarrow> string list \<Rightarrow> bool" where
  "packages_present w n [] = True"
| "packages_present w n (line # lines) =
     (exit_zero (popen w n (pip3_show line)) \<and> packages_present w (Suc n) lines)"

definition requirements :: "world \<Rightarrow> string list" where
  "requirements w = (case reqfile w of Text content \<Rightarrow> read_requirements content [] | _ \<Rightarrow> [])"

definition dependencies_ok :: "world \<Rightarrow> nat \<Rightarrow> bool" where
  "dependencies_ok w n =
     (case reqfile w of
        Text content \<Rightarrow> packages_present w n (read_requirements content [])
      | _ \<Rightarrow> False)"

definition configuration_ok :: "world \<Rightarrow> nat \<Rightarrow> bool" where
  "configuration_ok w n =
     (case environ w ''PATTOO_CONFIGDIR'' of
        None \<Rightarrow> False
      | Some dir \<Rightarrow> isdir w dir \<and> exit_zero (popen w n (str_split CHR '' '' (config_script w))))"

definition package_report :: "string \<Rightarrow> string list" where
  "package_report line =
     [''??: Checking package '' @ package_of line,
      ''Running Command: \"pip3 show '' @ package_of line @ ''\"'',
      ''OK: package '' @ line]"

definition config_report :: "world \<Rightarrow> string list" where
  "config_report w =
     [''??: Checking configuration'',
      ''Running Command: \"'' @ config_script w @ ''\"'',
      ''OK: Configuration check passed'']"

text \<open>
  A sample installation: two comment or blank lines, two requirements, the
  configuration directory set and present, every command exiting 0.
\<close>

definition example_world :: world where
  "example_world =
     \<lparr>root_dir = ''/opt/pattoo-web'',
      reqfile = Text (''# pins'' @ [nl] @ [nl] @ ''  requests>=2.0 '' @ [nl] @ ''PyYAML'' @ [nl]),
      environ = (\<lambda>k. if k = ''PATTOO_CONFIGDIR'' then Some ''/etc/pattoo'' else None),
      isdir = (\<lambda>d. d = ''/etc/pattoo''),
      popen = (\<lambda>n argv. Completed 0 ''Name: x'' [])\<rparr>"

text \<open>
  The same installation with a requirements file of comments and blank lines only,
  with no command that can be launched, and with commands that exit 1 after writing
  the byte \<open>0xFF\<close>, which is not UTF-8.
\<close>

definition comments_only :: string where
  "comments_only = ''# production pins'' @ [nl] @ [nl] @ ''   '' @ [nl] @ ''  #requests>=2.0''"

definition unlaunchable :: world where
  "unlaunchable =
     example_world\<lparr>popen := \<lambda>n argv.
       Failed ''<class FileNotFoundError>'' ''[Errno 2] No such file or directory''
         ''<traceback object>'' ''  File subprocess.py, line 1026, in __init__''\<rparr>"

definition garbled :: world where
  "garbled = example_world\<lparr>popen := \<lambda>n argv. Completed 1 [CHR 0xFF] []\<rparr>"

text \<open>
  Two agent runtimes: one whose control calls all fail with exit status 1, one whose
  control calls all return.
\<close>

definition refusing :: "(string, unit) runtime" where
  "refusing =
     \<lparr>new_config = Return ''/etc/pattoo'', PATTOO_WEBD = (),
      control_result = (\<lambda>n a. SysExit 1)\<rparr>"

definition obliging :: "(string, unit) runtime" where
  "obliging =
     \<lparr>new_config = Return ''/etc/pattoo'', PATTOO_WEBD = (),
      control_result = (\<lambda>n a. Return ())\<rparr>"

section \<open>Sequencing and printing\<close>

lemma andthen_print: "andthen (print m) f s = f () (s\<lparr>printed := printed s @ [m]\<rparr>)"
  by (simp add: andthen_def print_def)

lemma print_all_eq: "print_all ms s = (Return (), s\<lparr>printed := printed s @ ms\<rparr>)"
  by (induction ms arbitrary: s) (simp_all add: andthen_print)

lemma andthen_print_all:
  "andthen (print_all ms) f s = f () (s\<lparr>printed := printed s @ ms\<rparr>)"
  by (simp add: andthen_def print_all_eq)

lemma log_eq:
  "log message s = (SysExit 3, s\<lparr>printed := printed s @ [nl # ''PATTOO Error: '' @ message]\<rparr>)"
  by (simp add: log_def andthen_print sys_exit_def)

section \<open>What \<open>_run_script\<close> does, case by case\<close>

lemma run_script_zero:
  assumes "popen w (length (spawned s)) (str_split CHR '' '' cli_string) = Completed 0 out err"
  shows "run_script w cli_string die s = (Return (0, out, err), announced cli_string s)"
  using assms
  by (simp add: run_script_def andthen_print communicate_def return_def announced_def)

lemma run_script_undecodable:
  assumes "popen w (length (spawned s)) (str_split CHR '' '' cli_string) = Completed rc out err"
    and "rc \<noteq> 0" and "decode out = None \<or> decode err = None"
  shows "run_script w cli_string die s = (Uncaught UnicodeDecodeError, announced cli_string s)"
  using assms
  by (cases "decode out")
    (auto simp add: run_script_def andthen_print communicate_def raise_def announced_def
      Let_def)

lemma run_script_nonzero:
  assumes "popen w (length (spawned s)) (str_split CHR '' '' cli_string) = Completed rc out err"
    and "rc \<noteq> 0" and "decode out = Some out_text" and "decode err = Some err_text"
  shows "run_script w cli_string die s =
     (if die then SysExit 2 else Return (rc, out, err),
      (announced cli_string s)\<lparr>printed := printed (announced cli_string s) @
         [''Return code:'' @ str_int rc] @
         map (\<lambda>line. ''STDOUT: '' @ line) (str_split nl out_text) @
         map (\<lambda>line. ''STDERR: '' @ line) (str_split nl err_text)\<rparr>)"
  using assms
  by (simp add: run_script_def andthen_print communicate_def return_def sys_exit_def
      announced_def andthen_print_all)

lemma str_int_1: "str_int 1 = ''1''"
  by code_simp

lemma decode_empty: "decode [] = Some []"
  by (simp add: decode_def)

lemma run_script_failed:
  assumes "popen w (length (spawned s)) (str_split CHR '' '' cli_string) = Failed t v tb frames"
  shows "run_script w cli_string die s =
     (if die then SysExit 2 else Return (1, [], []),
      (announced cli_string s)\<lparr>printed := printed (announced cli_string s) @
         [''Bug: Exception Type:'' @ t @ '', Exception Instance: '' @ v @
            '', Stack Trace Object: '' @ tb @ '']    '',
          ''Traceback (most recent call last):'' @ [nl] @ frames,
          ''Return code:1'', ''STDOUT: '', ''STDERR: '']\<rparr>)"
  using assms
  by (simp add: run_script_def andthen_print communicate_def return_def sys_exit_def
      announced_def andthen_print_all decode_empty str_int_1)

lemma fail_fast_reports_then_exits:
  assumes "popen w (length (spawned s)) (str_split CHR '' '' cli_string) = Completed rc out err"
    and "rc \<noteq> 0" and "decode out = Some out_text" and "decode err = Some err_text"
  shows "run_script w cli_string True s =
     (SysExit 2,
      s\<lparr>printed := printed s @
          [''Running Command: \"'' @ cli_string @ ''\"'', ''Return code:'' @ str_int rc] @
          map (\<lambda>line. ''STDOUT: '' @ line) (str_split nl out_text) @
          map (\<lambda>line. ''STDERR: '' @ line) (str_split nl err_text),
        spawned := spawned s @ [str_split CHR '' '' cli_string]\<rparr>)"
  using run_script_nonzero [OF assms, of True] by (simp add: announced_def)

text \<open>
  C1. A command that exits non-zero under \<open>die=True\<close> does not always end the
  process with exit code 2 after its output was printed: when the captured output is not
  UTF-8, \<open>stdoutdata.decode()\<close> raises before any message is printed. Here the
  configuration check exits 1 after writing the byte \<open>0xFF\<close>: the run ends with an
  uncaught \<open>UnicodeDecodeError\<close>, having printed only the \<open>Running Command\<close> line.
  (\<open>fail_fast_reports_then_exits\<close> is the behaviour when both streams decode.)
\<close>

theorem fail_fast_garbled_output:
  "run_script garbled ''/opt/pattoo-web/setup/_check_config.py'' True start =
     (Uncaught UnicodeDecodeError,
      \<lparr>printed = [''Running Command: \"/opt/pattoo-web/setup/_check_config.py\"''],
       spawned = [[''/opt/pattoo-web/setup/_check_config.py'']]\<rparr>)"
  by code_simp

lemma no_fail_fast_returns_result:
  assumes "popen w (length (spawned s)) (str_split CHR '' '' cli_string) = Completed rc out err"
    and "rc = 0 \<or> (decode out \<noteq> None \<and> decode err \<noteq> None)"
  shows "fst (run_script w cli_string False s) = Return (rc, out, err)"
proof (cases "rc = 0")
  case True
  with assms(1) show ?thesis
    by (simp add: run_script_zero)
next
  case False
  with assms(2) obtain out_text err_text where
    "decode out = Some out_text" "decode err = Some err_text" by auto
  from run_script_nonzero [OF assms(1) False this, of False] show ?thesis
    by simp
qed

text \<open>
  C5. Under \<open>die=False\<close> a non-zero exit is not always returned to the caller: with
  the same undecodable output the run ends with an uncaught \<open>UnicodeDecodeError\<close>
  instead of returning \<open>(1, stdout, stderr)\<close>.
  (\<open>no_fail_fast_returns_result\<close> is the behaviour on exit 0 or decodable output.)
\<close>

theorem no_fail_fast_garbled_output:
  "run_script garbled ''pip3 show PyYAML'' False start =
     (Uncaught UnicodeDecodeError,
      \<lparr>printed = [''Running Command: \"pip3 show PyYAML\"''],
       spawned = [[''pip3'', ''show'', ''PyYAML'']]\<rparr>)"
  by code_simp

text \<open>
  C3, as the code has it. When the launch raises, nothing propagates: the runner prints
  the command line, the execution-error message, the traceback text, \<open>Return code:1\<close>
  and the two empty output lines; the return code is the sentinel 1 and both captured
  streams stay empty. Under \<open>die=False\<close> the caller receives \<open>(1, b'', b'')\<close>, under
  \<open>die=True\<close> the process exits with code 2.
\<close>

theorem launch_failure_reported_not_raised:
  assumes "popen w (length (spawned s)) (str_split CHR '' '' cli_string) = Failed t v tb frames"
  shows "run_script w cli_string die s =
     (if die then SysExit 2 else Return (1, [], []),
      s\<lparr>printed := printed s @
          [''Running Command: \"'' @ cli_string @ ''\"'',
           ''Bug: Exception Type:'' @ t @ '', Exception Instance: '' @ v @
             '', Stack Trace Object: '' @ tb @ '']    '',
           ''Traceback (most recent call last):'' @ [nl] @ frames,
           ''Return code:1'', ''STDOUT: '', ''STDERR: ''],
        spawned := spawned s @ [str_split CHR '' '' cli_string]\<rparr>)"
  using run_script_failed [OF assms, of die] by (simp add: announced_def)

theorem launch_failure_reported_not_raised_witness:
  "run_script unlaunchable ''pip3 show requests'' False start =
     (Return (1, [], []),
      \<lparr>printed =
          [''Running Command: \"pip3 show requests\"'',
           ''Bug: Exception Type:<class FileNotFoundError>, Exception Instance: '' @
             ''[Errno 2] No such file or directory, Stack Trace Object: '' @
             ''<traceback object>]    '',
           ''Traceback (most recent call last):'' @ [nl] @
             ''  File subprocess.py, line 1026, in __init__'',
           ''Return code:1'', ''STDOUT: '', ''STDERR: ''],
       spawned = [[''pip3'', ''show'', ''requests'']]\<rparr>)"
proof -
  have "popen unlaunchable (length (spawned start)) (str_split CHR '' '' ''pip3 show requests'') =
      Failed ''<class FileNotFoundError>'' ''[Errno 2] No such file or directory''
         ''<traceback object>'' ''  File subprocess.py, line 1026, in __init__''"
    by (simp add: unlaunchable_def)
  from launch_failure_reported_not_raised [OF this, of False]
  show ?thesis by (simp add: start_def)
qed

text \<open>
  C3, as stated, fails: on a launch failure the \<open>stderr\<close> of the result is empty, not
  the error message, and under \<open>die=True\<close> the caller receives no result at all.
\<close>

theorem launch_failure_counterexample:
  "fst (run_script unlaunchable ''pip3 show requests'' False start) = Return (1, [], []) \<and>
   fst (run_script unlaunchable ''pip3 show requests'' True start) = SysExit 2"
  by code_simp

section \<open>Reading the requirements file\<close>

lemma read_requirements_acc:
  "read_requirements fp lines = lines @ filter kept (map strip (file_lines fp))"
proof (induction fp lines rule: read_requirements.induct)
  case (1 fp lines)
  show ?case
  proof (cases "fst (readline fp) = []")
    case True
    then show ?thesis
      by (subst read_requirements.simps, subst file_lines.simps) simp
  next
    case False
    define l where "l = fst (readline fp)"
    define rest where "rest = snd (readline fp)"
    define acc where
      "acc = (if startswith (strip l) ''#'' \<or> strip l = [] then lines else lines @ [strip l])"
    have step: "read_requirements fp lines = read_requirements rest acc"
      using False by (subst read_requirements.simps) (simp add: Let_def acc_def l_def rest_def)
    have ih: "read_requirements rest acc = acc @ filter kept (map strip (file_lines rest))"
      using "1.IH" [OF refl False refl] unfolding acc_def l_def rest_def .
    have acc_eq: "acc = lines @ filter kept [strip l]"
      by (simp add: acc_def kept_def)
    have fl: "file_lines fp = l # file_lines rest"
      using False by (subst file_lines.simps) (simp add: l_def rest_def)
    have "read_requirements fp lines = acc @ filter kept (map strip (file_lines rest))"
      by (simp only: step ih)
    also have "\<dots> = lines @ filter kept (map strip (file_lines fp))"
      by (simp add: acc_eq fl)
    finally show ?thesis .
  qed
qed

lemma str_split1_nonempty: "str_split1 sep s \<noteq> []"
  by (induction s) (auto split: list.splits)

lemma hd_str_split1: "hd (str_split1 sep s) = takeWhile (\<lambda>c. c \<noteq> sep) s"
  by (induction s) (auto simp: str_split1_nonempty split: list.splits)

lemma package_of_takeWhile:
  "package_of line = takeWhile (\<lambda>c. c \<noteq> CHR ''='' \<and> c \<noteq> CHR ''>'') line"
proof -
  have "takeWhile (\<lambda>c. c \<noteq> CHR ''>'') (takeWhile (\<lambda>c. c \<noteq> CHR ''='') line) =
        takeWhile (\<lambda>c. c \<noteq> CHR ''='' \<and> c \<noteq> CHR ''>'') line"
    by (induction line) auto
  then show ?thesis
    by (simp add: package_of_def hd_str_split1)
qed

section \<open>The lines the checks print\<close>

lemma extends_refl: "extends s s"
  by (simp add: extends_def)

lemma extends_trans: "extends s s' \<Longrightarrow> extends s' s'' \<Longrightarrow> extends s s''"
  by (auto simp: extends_def)

lemma next_steps_not_plain: "\<not> plain next_steps_message"
  by (simp add: plain_def next_steps_message_def)

lemma run_script_cases:
  obtains (zero) out err where
      "run_script w cli die s = (Return (0, out, err), announced cli s)"
  | (undecodable)
      "run_script w cli die s = (Uncaught UnicodeDecodeError, announced cli s)"
  | (reported) rc out err ms where "rc \<noteq> 0" "list_all plain ms"
      "run_script w cli die s =
         (if die then SysExit 2 else Return (rc, out, err),
          (announced cli s)\<lparr>printed := printed (announced cli s) @ ms\<rparr>)"
proof (cases "popen w (length (spawned s)) (str_split CHR '' '' cli)")
  case (Completed rc out err)
  show ?thesis
  proof (cases "rc = 0")
    case True
    with Completed show ?thesis
      using run_script_zero [of w s cli out err die] zero by simp
  next
    case False
    show ?thesis
    proof (cases "decode out = None \<or> decode err = None")
      case True
      with Completed False show ?thesis
        using run_script_undecodable [of w s cli rc out err die] undecodable by simp
    next
      case dec: False
      then obtain out_text err_text where
        "decode out = Some out_text" "decode err = Some err_text" by auto
      with Completed False have eq:
        "run_script w cli die s =
           (if die then SysExit 2 else Return (rc, out, err),
            (announced cli s)\<lparr>printed := printed (announced cli s) @
               [''Return code:'' @ str_int rc] @
               map (\<lambda>line. ''STDOUT: '' @ line) (str_split nl out_text) @
               map (\<lambda>line. ''STDERR: '' @ line) (str_split nl err_text)\<rparr>)"
        by (rule run_script_nonzero)
      have pl: "list_all plain ([''Return code:'' @ str_int rc] @
               map (\<lambda>line. ''STDOUT: '' @ line) (str_split nl out_text) @
               map (\<lambda>line. ''STDERR: '' @ line) (str_split nl err_text))"
        by (auto simp: list_all_iff plain_def nl_def)
      show ?thesis
        by (rule reported [OF False pl eq])
    qed
  qed
next
  case (Failed t v tb frames)
  then have eq:
    "run_script w cli die s =
     (if die then SysExit 2 else Return (1, [], []),
      (announced cli s)\<lparr>printed := printed (announced cli s) @
         [''Bug: Exception Type:'' @ t @ '', Exception Instance: '' @ v @
            '', Stack Trace Object: '' @ tb @ '']    '',
          ''Traceback (most recent call last):'' @ [nl] @ frames,
          ''Return code:1'', ''STDOUT: '', ''STDERR: '']\<rparr>)"
    by (rule run_script_failed)
  have pl: "list_all plain [''Bug: Exception Type:'' @ t @ '', Exception Instance: '' @ v @
            '', Stack Trace Object: '' @ tb @ '']    '',
          ''Traceback (most recent call last):'' @ [nl] @ frames,
          ''Return code:1'', ''STDOUT: '', ''STDERR: '']"
    by (simp add: plain_def nl_def)
  have nz: "(1::int) \<noteq> 0" by simp
  show ?thesis
    by (rule reported [OF nz pl eq])
qed

section \<open>The package loop\<close>

lemma spawned_probing: "spawned (probing line s) = spawned s @ [pip3_show line]"
  by (simp add: probing_def announced_def pip3_show_def)

lemma extends_probing: "extends s (probing line s)"
  by (simp add: probing_def announced_def extends_def plain_def)

lemma check_packages_Cons:
  "check_packages w (line # lines) s =
     (case run_script w (''pip3 show '' @ package_of line) False
             (s\<lparr>printed := printed s @ [''??: Checking package '' @ package_of line]\<rparr>) of
        (Return (rc, out, err), s2) \<Rightarrow>
          if rc \<noteq> 0 then log (missing_message (package_of line)) s2
          else check_packages w lines (s2\<lparr>printed := printed s2 @ [''OK: package '' @ line]\<rparr>)
      | (SysExit c, s2) \<Rightarrow> (SysExit c, s2)
      | (Uncaught e, s2) \<Rightarrow> (Uncaught e, s2))"
  by (simp add: Let_def andthen_print)
     (auto simp add: andthen_def return_def print_def log_def sys_exit_def missing_message_def
        split: prod.splits outcome.splits)

declare check_packages.simps(2) [simp del]

lemma check_packages_ok:
  assumes "run_script w (''pip3 show '' @ package_of line) False
             (s\<lparr>printed := printed s @ [''??: Checking package '' @ package_of line]\<rparr>) =
           (Return (0, out, err), probing line s)"
  shows "check_packages w (line # lines) s =
         check_packages w lines
           ((probing line s)\<lparr>printed := printed (probing line s) @ [''OK: package '' @ line]\<rparr>)"
  by (simp only: check_packages_Cons assms) simp

lemma check_packages_undecodable:
  assumes "run_script w (''pip3 show '' @ package_of line) False
             (s\<lparr>printed := printed s @ [''??: Checking package '' @ package_of line]\<rparr>) =
           (Uncaught UnicodeDecodeError, probing line s)"
  shows "check_packages w (line # lines) s = (Uncaught UnicodeDecodeError, probing line s)"
  by (simp only: check_packages_Cons assms) simp

lemma check_packages_missing:
  assumes "run_script w (''pip3 show '' @ package_of line) False
             (s\<lparr>printed := printed s @ [''??: Checking package '' @ package_of line]\<rparr>) =
           (Return (rc, out, err), (probing line s)\<lparr>printed := printed (probing line s) @ ms\<rparr>)"
    and "rc \<noteq> 0"
  shows "check_packages w (line # lines) s =
         (SysExit 3, (probing line s)\<lparr>printed := printed (probing line s) @ ms @
            [nl # ''PATTOO Error: '' @ missing_message (package_of line)]\<rparr>)"
  using assms(2) by (simp only: check_packages_Cons assms(1)) (simp add: log_eq)

lemma check_packages_effect:
  "extends s (snd (check_packages w lines s)) \<and>
   (\<exists>k. k \<le> length lines \<and>
        spawned (snd (check_packages w lines s)) = spawned s @ map pip3_show (take k lines) \<and>
        (fst (check_packages w lines s) = Return () \<longrightarrow> k = length lines)) \<and>
   fst (check_packages w lines s) \<in> {Return (), SysExit 3, Uncaught UnicodeDecodeError}"
proof (induction lines arbitrary: s)
  case Nil
  show ?case by (simp add: return_def extends_refl)
next
  case (Cons line lines)
  let ?s1 = "s\<lparr>printed := printed s @ [''??: Checking package '' @ package_of line]\<rparr>"
  let ?cmd = "''pip3 show '' @ package_of line"
  have an: "announced ?cmd ?s1 = probing line s"
    by (simp add: probing_def)
  show ?case
  proof (cases rule: run_script_cases [of w ?cmd False ?s1])
    case (zero out err)
    let ?s3 = "(probing line s)\<lparr>printed := printed (probing line s) @ [''OK: package '' @ line]\<rparr>"
    have eq: "check_packages w (line # lines) s = check_packages w lines ?s3"
      using zero unfolding an by (rule check_packages_ok)
    have ext: "extends s ?s3"
      by (rule extends_trans [OF extends_probing [of s line]]) (simp add: extends_def plain_def)
    have sp: "spawned ?s3 = spawned s @ [pip3_show line]"
      by (simp add: spawned_probing)
    from Cons.IH [of ?s3] obtain k where
      k: "k \<le> length lines"
        "spawned (snd (check_packages w lines ?s3)) = spawned ?s3 @ map pip3_show (take k lines)"
        "fst (check_packages w lines ?s3) = Return () \<longrightarrow> k = length lines"
      and e: "extends ?s3 (snd (check_packages w lines ?s3))"
      and f: "fst (check_packages w lines ?s3) \<in> {Return (), SysExit 3, Uncaught UnicodeDecodeError}"
      by blast
    have "Suc k \<le> length (line # lines) \<and>
        spawned (snd (check_packages w (line # lines) s)) =
          spawned s @ map pip3_show (take (Suc k) (line # lines)) \<and>
        (fst (check_packages w (line # lines) s) = Return () \<longrightarrow> Suc k = length (line # lines))"
      using k by (simp add: eq spawned_probing)
    moreover have "extends s (snd (check_packages w (line # lines) s))"
      unfolding eq by (rule extends_trans [OF ext e])
    ultimately show ?thesis
      using f unfolding eq [symmetric] by blast
  next
    case undecodable
    have eq: "check_packages w (line # lines) s = (Uncaught UnicodeDecodeError, probing line s)"
      using undecodable unfolding an by (rule check_packages_undecodable)
    have "Suc 0 \<le> length (line # lines) \<and>
        spawned (snd (check_packages w (line # lines) s)) =
          spawned s @ map pip3_show (take (Suc 0) (line # lines)) \<and>
        (fst (check_packages w (line # lines) s) = Return () \<longrightarrow> Suc 0 = length (line # lines))"
      by (simp add: eq spawned_probing)
    moreover have "extends s (snd (check_packages w (line # lines) s))"
      by (simp add: eq extends_probing)
    moreover have "fst (check_packages w (line # lines) s) \<in>
        {Return (), SysExit 3, Uncaught UnicodeDecodeError}"
      by (simp add: eq)
    ultimately show ?thesis by blast
  next
    case (reported rc out err ms)
    have eq: "check_packages w (line # lines) s =
         (SysExit 3, (probing line s)\<lparr>printed := printed (probing line s) @ ms @
            [nl # ''PATTOO Error: '' @ missing_message (package_of line)]\<rparr>)"
      using reported(3) reported(1) unfolding an by (simp add: check_packages_missing)
    have "Suc 0 \<le> length (line # lines) \<and>
        spawned (snd (check_packages w (line # lines) s)) =
          spawned s @ map pip3_show (take (Suc 0) (line # lines)) \<and>
        (fst (check_packages w (line # lines) s) = Return () \<longrightarrow> Suc 0 = length (line # lines))"
      by (simp add: eq spawned_probing)
    moreover have "extends s (snd (check_packages w (line # lines) s))"
      unfolding eq snd_conv
      by (rule extends_trans [OF extends_probing [of s line]])
         (simp add: extends_def reported(2) plain_def nl_def)
    moreover have "fst (check_packages w (line # lines) s) \<in>
        {Return (), SysExit 3, Uncaught UnicodeDecodeError}"
      by (simp add: eq)
    ultimately show ?thesis by blast
  qed
qed

lemma check_packages_first_missing:
  assumes "\<forall>i < length pre. \<exists>out err.
             popen w (length (spawned s) + i) (pip3_show (pre ! i)) = Completed 0 out err"
    and "popen w (length (spawned s) + length pre) (pip3_show line) = Completed rc out err"
    and "rc \<noteq> 0" and "decode out = Some out_text" and "decode err = Some err_text"
  shows "fst (check_packages w (pre @ line # post) s) = SysExit 3 \<and>
         spawned (snd (check_packages w (pre @ line # post) s)) =
           spawned s @ map pip3_show (pre @ [line]) \<and>
         last (printed (snd (check_packages w (pre @ line # post) s))) =
           nl # ''PATTOO Error: '' @ missing_message (package_of line)"
  using assms(1,2)
proof (induction pre arbitrary: s)
  case Nil
  let ?s1 = "s\<lparr>printed := printed s @ [''??: Checking package '' @ package_of line]\<rparr>"
  let ?cmd = "''pip3 show '' @ package_of line"
  have "popen w (length (spawned ?s1)) (str_split CHR '' '' ?cmd) = Completed rc out err"
    using Nil(2) by (simp add: pip3_show_def)
  from run_script_nonzero [OF this assms(3,4,5), of False]
  have "run_script w ?cmd False ?s1 =
      (Return (rc, out, err),
       (probing line s)\<lparr>printed := printed (probing line s) @
         [''Return code:'' @ str_int rc] @
         map (\<lambda>line. ''STDOUT: '' @ line) (str_split nl out_text) @
         map (\<lambda>line. ''STDERR: '' @ line) (str_split nl err_text)\<rparr>)"
    by (simp add: probing_def)
  from check_packages_missing [OF this assms(3), of post] show ?case
    by (simp add: spawned_probing)
next
  case (Cons p pre)
  let ?s1 = "s\<lparr>printed := printed s @ [''??: Checking package '' @ package_of p]\<rparr>"
  let ?cmd = "''pip3 show '' @ package_of p"
  let ?s3 = "(probing p s)\<lparr>printed := printed (probing p s) @ [''OK: package '' @ p]\<rparr>"
  from Cons.prems(1) [rule_format, of 0] obtain out0 err0 where
    "popen w (length (spawned s)) (pip3_show p) = Completed 0 out0 err0"
    by auto
  then have "popen w (length (spawned ?s1)) (str_split CHR '' '' ?cmd) = Completed 0 out0 err0"
    by (simp add: pip3_show_def)
  from run_script_zero [OF this, of False]
  have "run_script w ?cmd False ?s1 = (Return (0, out0, err0), probing p s)"
    by (simp add: probing_def)
  then have eq: "check_packages w (p # pre @ line # post) s =
      check_packages w (pre @ line # post) ?s3"
    by (simp add: check_packages_ok)
  have len: "length (spawned ?s3) = Suc (length (spawned s))"
    by (simp add: spawned_probing)
  have a: "\<forall>i < length pre. \<exists>out err.
      popen w (length (spawned ?s3) + i) (pip3_show (pre ! i)) = Completed 0 out err"
  proof (intro allI impI)
    fix i assume "i < length pre"
    with Cons.prems(1) [rule_format, of "Suc i"] show "\<exists>out err.
      popen w (length (spawned ?s3) + i) (pip3_show (pre ! i)) = Completed 0 out err"
      by (simp add: spawned_probing)
  qed
  have b: "popen w (length (spawned ?s3) + length pre) (pip3_show line) = Completed rc out err"
    using Cons.prems(2) by (simp add: spawned_probing)
  from Cons.IH [OF a b] show ?case
    by (simp add: eq spawned_probing)
qed

section \<open>\<open>check_pip3\<close>\<close>

lemma check_pip3_NoFile:
  assumes "reqfile w = NoFile"
  shows "check_pip3 w s =
    (SysExit 3, s\<lparr>printed := printed s @
       [nl # ''PATTOO Error: '' @ ''Cannot find PIP3 requirements file '' @ requirements_path w]\<rparr>)"
  using assms by (simp add: check_pip3_def Let_def andthen_def log_eq requirements_path_def)

lemma check_pip3_Unreadable:
  assumes "reqfile w = Unreadable"
  shows "check_pip3 w s = (Uncaught OSError, s)"
  using assms by (simp add: check_pip3_def Let_def andthen_def return_def raise_def)

lemma check_pip3_Text:
  assumes "reqfile w = Text content"
  shows "check_pip3 w s = check_packages w (read_requirements content []) s"
  using assms by (simp add: check_pip3_def Let_def andthen_def return_def)

lemma pip3_show_takeWhile:
  "pip3_show = (\<lambda>l. str_split CHR '' ''
      (''pip3 show '' @ takeWhile (\<lambda>c. c \<noteq> CHR ''='' \<and> c \<noteq> CHR ''>'') l))"
  by (rule ext) (simp add: pip3_show_def package_of_takeWhile)

text \<open>
  C6. Of the lines of the requirements file, those that are blank or start with \<open>#\<close>
  once stripped are dropped, the others are kept, stripped and in order. The commands
  \<open>check_pip3\<close> launches are, in order, \<open>pip3 show\<close> followed by what precedes the first
  \<open>=\<close> or \<open>>\<close> of each kept line, split at spaces: for the first \<open>k\<close> kept lines, and for
  all of them when the check returns.
\<close>

theorem requirement_lines_and_package_names:
  assumes "reqfile w = Text content"
  shows "read_requirements content [] =
           filter (\<lambda>l. \<not> (startswith l ''#'' \<or> l = [])) (map strip (file_lines content)) \<and>
         (\<exists>k. k \<le> length (read_requirements content []) \<and>
            spawned (snd (check_pip3 w s)) =
              spawned s @
              map (\<lambda>l. str_split CHR '' ''
                     (''pip3 show '' @ takeWhile (\<lambda>c. c \<noteq> CHR ''='' \<and> c \<noteq> CHR ''>'') l))
                (take k (read_requirements content [])) \<and>
            (fst (check_pip3 w s) = Return () \<longrightarrow> k = length (read_requirements content [])))"
proof
  have "kept = (\<lambda>l. \<not> (startswith l ''#'' \<or> l = []))"
    by (rule ext) (simp add: kept_def)
  then show "read_requirements content [] =
      filter (\<lambda>l. \<not> (startswith l ''#'' \<or> l = [])) (map strip (file_lines content))"
    using read_requirements_acc [of content "[]"] by simp
next
  from check_packages_effect [of s w "read_requirements content []"]
  show "\<exists>k. k \<le> length (read_requirements content []) \<and>
            spawned (snd (check_pip3 w s)) =
              spawned s @
              map (\<lambda>l. str_split CHR '' ''
                     (''pip3 show '' @ takeWhile (\<lambda>c. c \<noteq> CHR ''='' \<and> c \<noteq> CHR ''>'') l))
                (take k (read_requirements content [])) \<and>
            (fst (check_pip3 w s) = Return () \<longrightarrow> k = length (read_requirements content []))"
    unfolding check_pip3_Text [OF assms] pip3_show_takeWhile by blast
qed

lemma example_lines:
  "read_requirements (''# pins'' @ [nl] @ [nl] @ ''  requests>=2.0 '' @ [nl] @ ''PyYAML'' @ [nl]) []
     = [''requests>=2.0'', ''PyYAML'']"
  by code_simp

theorem requirement_lines_and_package_names_witness:
  "read_requirements (''# pins'' @ [nl] @ [nl] @ ''  requests>=2.0 '' @ [nl] @ ''PyYAML'' @ [nl]) []
     = [''requests>=2.0'', ''PyYAML''] \<and>
   spawned (snd (check_pip3 example_world start)) =
     [[''pip3'', ''show'', ''requests''], [''pip3'', ''show'', ''PyYAML'']]"
proof -
  let ?c = "''# pins'' @ [nl] @ [nl] @ ''  requests>=2.0 '' @ [nl] @ ''PyYAML'' @ [nl]"
  let ?argv = "\<lambda>l. str_split CHR '' ''
      (''pip3 show '' @ takeWhile (\<lambda>c. c \<noteq> CHR ''='' \<and> c \<noteq> CHR ''>'') l)"
  have r: "reqfile example_world = Text ?c"
    by (simp add: example_world_def)
  have ok: "fst (check_pip3 example_world start) = Return ()"
    by code_simp
  from requirement_lines_and_package_names [OF r, of start] obtain k where
    k: "spawned (snd (check_pip3 example_world start)) =
          spawned start @ map ?argv (take k (read_requirements ?c []))"
       "fst (check_pip3 example_world start) = Return () \<longrightarrow>
          k = length (read_requirements ?c [])"
    by blast
  from k ok have "spawned (snd (check_pip3 example_world start)) =
      map ?argv (read_requirements ?c [])"
    by (simp add: start_def)
  also have "\<dots> = [[''pip3'', ''show'', ''requests''], [''pip3'', ''show'', ''PyYAML'']]"
    unfolding example_lines by simp
  finally show ?thesis
    using example_lines by simp
qed

lemma read_requirements_none_kept:
  assumes "\<forall>l \<in> set (file_lines content). strip l = [] \<or> startswith (strip l) ''#''"
  shows "read_requirements content [] = []"
proof -
  have "filter kept (map strip (file_lines content)) = []"
    using assms by (auto simp: filter_empty_conv kept_def)
  then show ?thesis
    by (simp add: read_requirements_acc)
qed

text \<open>
  C10. When the requirements file exists and each of its lines, once stripped, is empty
  or starts with \<open>#\<close>, \<open>check_pip3\<close> returns and leaves the state as it was: it prints
  nothing, launches no command and does not reach \<open>_log\<close>.
\<close>

theorem comments_only_checks_nothing:
  assumes "reqfile w = Text content"
    and "\<forall>l \<in> set (file_lines content). strip l = [] \<or> startswith (strip l) ''#''"
  shows "check_pip3 w s = (Return (), s)"
  using assms(1) read_requirements_none_kept [OF assms(2)]
  by (simp add: check_pip3_Text return_def)

lemma comments_only_lines:
  "\<forall>l \<in> set (file_lines comments_only). strip l = [] \<or> startswith (strip l) ''#''"
  by code_simp

theorem comments_only_checks_nothing_witness:
  "check_pip3 (example_world\<lparr>reqfile := Text comments_only\<rparr>) start = (Return (), start)"
proof -
  have r: "reqfile (example_world\<lparr>reqfile := Text comments_only\<rparr>) = Text comments_only"
    by simp
  show ?thesis
    by (rule comments_only_checks_nothing [OF r comments_only_lines])
qed

text \<open>
  C2. A missing package does not always end \<open>check_pip3\<close> through \<open>_log\<close> with exit
  code 3: when \<open>pip3 show\<close> exits non-zero and its output is not UTF-8, the decoding in
  \<open>_run_script\<close> raises first. Here the first package is missing and the command wrote
  the byte \<open>0xFF\<close>: the run ends with an uncaught \<open>UnicodeDecodeError\<close>, no
  \<open>PATTOO Error\<close> line is printed, and the second package is not checked.
  (\<open>check_packages_first_missing\<close> and \<open>check_pip3_NoFile\<close> are the behaviour when the
  output decodes and when the file is absent.)
\<close>

theorem missing_package_garbled_output:
  "check_pip3 garbled start =
     (Uncaught UnicodeDecodeError,
      \<lparr>printed = [''??: Checking package requests'',
                  ''Running Command: \"pip3 show requests\"''],
       spawned = [[''pip3'', ''show'', ''requests'']]\<rparr>)"
  by code_simp

section \<open>\<open>check_config\<close>\<close>

lemma check_config_unset:
  assumes "environ w ''PATTOO_CONFIGDIR'' = None"
  shows "check_config w s =
    (SysExit 3, s\<lparr>printed := printed s @
       [''??: Checking configuration'', nl # ''PATTOO Error: '' @ unset_message]\<rparr>)"
  using assms by (simp add: check_config_def andthen_print) (simp add: andthen_def log_eq)

lemma check_config_notdir:
  assumes "environ w ''PATTOO_CONFIGDIR'' = Some dir" and "\<not> isdir w dir"
  shows "check_config w s =
    (SysExit 3, s\<lparr>printed := printed s @
       [''??: Checking configuration'', nl # ''PATTOO Error: '' @ notdir_message]\<rparr>)"
  using assms
  by (simp add: check_config_def andthen_print) (simp add: andthen_def log_eq return_def)

lemma messages_differ: "unset_message \<noteq> notdir_message"
  by (simp add: unset_message_def notdir_message_def)

text \<open>
  C4. \<open>check_config\<close> looks at the environment first: when \<open>PATTOO_CONFIGDIR\<close> is
  unset it ends through \<open>_log\<close> with exit code 3 and the message about setting the
  variable, whatever the directory test would say; when the variable is set to
  something that is not a directory it ends through \<open>_log\<close> with exit code 3 and the
  message about the missing directory. The two messages differ, and in both cases
  nothing else is printed and no command is launched.
\<close>

theorem check_config_order:
  "(environ w ''PATTOO_CONFIGDIR'' = None \<longrightarrow>
      check_config w s =
        (SysExit 3, s\<lparr>printed := printed s @
           [''??: Checking configuration'', nl # ''PATTOO Error: '' @ unset_message]\<rparr>)) \<and>
   (\<forall>dir. environ w ''PATTOO_CONFIGDIR'' = Some dir \<and> \<not> isdir w dir \<longrightarrow>
      check_config w s =
        (SysExit 3, s\<lparr>printed := printed s @
           [''??: Checking configuration'', nl # ''PATTOO Error: '' @ notdir_message]\<rparr>)) \<and>
   unset_message \<noteq> notdir_message"
  using check_config_unset check_config_notdir messages_differ by blast

theorem check_config_order_witness:
  "check_config (example_world\<lparr>environ := \<lambda>k. None, isdir := \<lambda>d. False\<rparr>) start =
     (SysExit 3, \<lparr>printed = [''??: Checking configuration'',
                              nl # ''PATTOO Error: '' @ unset_message], spawned = []\<rparr>) \<and>
   check_config (example_world\<lparr>isdir := \<lambda>d. False\<rparr>) start =
     (SysExit 3, \<lparr>printed = [''??: Checking configuration'',
                              nl # ''PATTOO Error: '' @ notdir_message], spawned = []\<rparr>)"
proof -
  have a: "environ (example_world\<lparr>environ := \<lambda>k. None, isdir := \<lambda>d. False\<rparr>)
      ''PATTOO_CONFIGDIR'' = None"
    by simp
  have b: "environ (example_world\<lparr>isdir := \<lambda>d. False\<rparr>) ''PATTOO_CONFIGDIR'' = Some ''/etc/pattoo''
      \<and> \<not> isdir (example_world\<lparr>isdir := \<lambda>d. False\<rparr>) ''/etc/pattoo''"
    by (simp add: example_world_def)
  from a b
    check_config_order [of "example_world\<lparr>environ := \<lambda>k. None, isdir := \<lambda>d. False\<rparr>" start]
    check_config_order [of "example_world\<lparr>isdir := \<lambda>d. False\<rparr>" start]
  show ?thesis
    by (simp add: start_def)
qed

lemma check_config_run:
  assumes "environ w ''PATTOO_CONFIGDIR'' = Some dir" and "isdir w dir"
  shows "check_config w s =
     (case run_script w (config_script w) True
             (s\<lparr>printed := printed s @ [''??: Checking configuration'']\<rparr>) of
        (Return r, s2) \<Rightarrow>
          (Return (), s2\<lparr>printed := printed s2 @ [''OK: Configuration check passed'']\<rparr>)
      | (SysExit c, s2) \<Rightarrow> (SysExit c, s2)
      | (Uncaught e, s2) \<Rightarrow> (Uncaught e, s2))"
  using assms
  by (simp add: check_config_def andthen_print config_script_def)
     (auto simp add: andthen_def return_def print_def split: prod.splits outcome.splits)

lemma check_config_effect:
  "extends s (snd (check_config w s)) \<and>
   fst (check_config w s) \<in> {Return (), SysExit 2, SysExit 3, Uncaught UnicodeDecodeError}"
proof (cases "environ w ''PATTOO_CONFIGDIR''")
  case None
  then show ?thesis
    by (simp add: check_config_unset extends_def plain_def nl_def)
next
  case (Some dir)
  show ?thesis
  proof (cases "isdir w dir")
    case False
    with Some show ?thesis
      by (simp add: check_config_notdir extends_def plain_def nl_def)
  next
    case True
    let ?s1 = "s\<lparr>printed := printed s @ [''??: Checking configuration'']\<rparr>"
    have e1: "extends s (announced (config_script w) ?s1)"
      by (simp add: extends_def announced_def plain_def)
    show ?thesis
    proof (cases rule: run_script_cases [of w "config_script w" True ?s1])
      case (zero out err)
      then have eq: "check_config w s =
          (Return (), (announced (config_script w) ?s1)
             \<lparr>printed := printed (announced (config_script w) ?s1) @
                [''OK: Configuration check passed'']\<rparr>)"
        by (simp add: check_config_run [OF Some True])
      have "extends s (snd (check_config w s))"
        unfolding eq snd_conv
        by (rule extends_trans [OF e1]) (simp add: extends_def plain_def)
      then show ?thesis by (simp add: eq)
    next
      case undecodable
      then have eq: "check_config w s =
          (Uncaught UnicodeDecodeError, announced (config_script w) ?s1)"
        by (simp add: check_config_run [OF Some True])
      show ?thesis by (simp add: eq e1)
    next
      case (reported rc out err ms)
      then have eq: "check_config w s =
          (SysExit 2, (announced (config_script w) ?s1)
             \<lparr>printed := printed (announced (config_script w) ?s1) @ ms\<rparr>)"
        by (simp add: check_config_run [OF Some True])
      have "extends s (snd (check_config w s))"
        unfolding eq snd_conv
        by (rule extends_trans [OF e1]) (simp add: extends_def reported(2))
      then show ?thesis by (simp add: eq)
    qed
  qed
qed

section \<open>\<open>main\<close> of the installer\<close>

lemma check_pip3_effect:
  "extends s (snd (check_pip3 w s)) \<and>
   fst (check_pip3 w s) \<in>
     {Return (), SysExit 3, Uncaught UnicodeDecodeError, Uncaught OSError}"
proof (cases "reqfile w")
  case NoFile
  then show ?thesis
    by (simp add: check_pip3_NoFile extends_def plain_def nl_def)
next
  case Unreadable
  then show ?thesis
    by (simp add: check_pip3_Unreadable extends_refl)
next
  case (Text content)
  with check_packages_effect [of s w "read_requirements content []"] show ?thesis
    by (auto simp add: check_pip3_Text)
qed

lemma extends_keeps_absent:
  assumes "extends s s'" and "next_steps_message \<notin> set (printed s)"
  shows "next_steps_message \<notin> set (printed s')"
proof -
  from assms(1) obtain ls where ls: "printed s' = printed s @ ls" "list_all plain ls"
    by (auto simp: extends_def)
  from ls(2) have "next_steps_message \<notin> set ls"
    using next_steps_not_plain by (auto simp: list_all_iff)
  with assms(2) ls(1) show ?thesis by simp
qed

lemma main_cases:
  "main w s =
     (case check_pip3 w s of
        (Return u, s1) \<Rightarrow>
          (case check_config w s1 of
             (Return u', s2) \<Rightarrow> (Return (), s2\<lparr>printed := printed s2 @ [next_steps_message]\<rparr>)
           | (SysExit c, s2) \<Rightarrow> (SysExit c, s2)
           | (Uncaught e, s2) \<Rightarrow> (Uncaught e, s2))
      | (SysExit c, s1) \<Rightarrow> (SysExit c, s1)
      | (Uncaught e, s1) \<Rightarrow> (Uncaught e, s1))"
  by (auto simp add: main_def andthen_def next_steps_def print_def
      split: prod.splits outcome.splits)

lemma exit_zero_iff: "exit_zero p \<longleftrightarrow> (\<exists>out err. p = Completed 0 out err)"
  by (cases p) auto

lemma run_script_not_zero [consumes 1, case_names undecodable reported]:
  assumes "\<not> exit_zero (popen w (length (spawned s)) (str_split CHR '' '' cli))"
  obtains (undecodable)
      "run_script w cli die s = (Uncaught UnicodeDecodeError, announced cli s)"
  | (reported) rc out err ms where "rc \<noteq> 0" "list_all plain ms"
      "run_script w cli die s =
         (if die then SysExit 2 else Return (rc, out, err),
          (announced cli s)\<lparr>printed := printed (announced cli s) @ ms\<rparr>)"
proof (cases rule: run_script_cases [of w cli die s])
  case (zero out err)
  show ?thesis
  proof (cases "popen w (length (spawned s)) (str_split CHR '' '' cli)")
    case (Completed rc out' err')
    with assms have nz: "rc \<noteq> 0" by simp
    show ?thesis
    proof (cases "decode out' = None \<or> decode err' = None")
      case True
      from run_script_undecodable [OF Completed nz True, of die] zero show ?thesis
        by simp
    next
      case False
      then obtain a b where "decode out' = Some a" "decode err' = Some b" by auto
      from run_script_nonzero [OF Completed nz this, of die] zero nz show ?thesis
        by (cases die) simp_all
    qed
  next
    case (Failed t v tb frames)
    from run_script_failed [OF Failed, of die] zero show ?thesis
      by (cases die) simp_all
  qed
next
  case undecodable
  then show ?thesis by (rule that(1))
next
  case (reported rc out err ms)
  then show ?thesis by (rule that(2))
qed

lemma check_packages_present:
  assumes "packages_present w (length (spawned s)) lines"
  shows "check_packages w lines s =
     (Return (),
      s\<lparr>printed := printed s @ concat (map package_report lines),
        spawned := spawned s @ map pip3_show lines\<rparr>)"
  using assms
proof (induction lines arbitrary: s)
  case Nil
  show ?case by (simp add: return_def)
next
  case (Cons line lines)
  let ?s1 = "s\<lparr>printed := printed s @ [''??: Checking package '' @ package_of line]\<rparr>"
  let ?cmd = "''pip3 show '' @ package_of line"
  let ?s3 = "(probing line s)\<lparr>printed := printed (probing line s) @ [''OK: package '' @ line]\<rparr>"
  from Cons.prems obtain out err where
    "popen w (length (spawned s)) (pip3_show line) = Completed 0 out err"
    by (auto simp: exit_zero_iff)
  then have "popen w (length (spawned ?s1)) (str_split CHR '' '' ?cmd) = Completed 0 out err"
    by (simp add: pip3_show_def)
  from run_script_zero [OF this, of False]
  have "run_script w ?cmd False ?s1 = (Return (0, out, err), probing line s)"
    by (simp add: probing_def)
  then have eq: "check_packages w (line # lines) s = check_packages w lines ?s3"
    by (rule check_packages_ok)
  have "packages_present w (length (spawned ?s3)) lines"
    using Cons.prems by (simp add: spawned_probing)
  from Cons.IH [OF this] show ?case
    by (simp add: eq pip3_show_def package_report_def probing_def announced_def)
qed

lemma check_packages_absent:
  assumes "\<not> packages_present w (length (spawned s)) lines"
  shows "fst (check_packages w lines s) \<noteq> Return ()"
  using assms
proof (induction lines arbitrary: s)
  case Nil
  then show ?case by simp
next
  case (Cons line lines)
  let ?s1 = "s\<lparr>printed := printed s @ [''??: Checking package '' @ package_of line]\<rparr>"
  let ?cmd = "''pip3 show '' @ package_of line"
  let ?s3 = "(probing line s)\<lparr>printed := printed (probing line s) @ [''OK: package '' @ line]\<rparr>"
  have an: "announced ?cmd ?s1 = probing line s"
    by (simp add: probing_def)
  show ?case
  proof (cases "exit_zero (popen w (length (spawned s)) (pip3_show line))")
    case True
    then obtain out err where
      "popen w (length (spawned s)) (pip3_show line) = Completed 0 out err"
      by (auto simp: exit_zero_iff)
    then have "popen w (length (spawned ?s1)) (str_split CHR '' '' ?cmd) = Completed 0 out err"
      by (simp add: pip3_show_def)
    from run_script_zero [OF this, of False]
    have "run_script w ?cmd False ?s1 = (Return (0, out, err), probing line s)"
      by (simp add: probing_def)
    then have eq: "check_packages w (line # lines) s = check_packages w lines ?s3"
      by (rule check_packages_ok)
    have "\<not> packages_present w (length (spawned ?s3)) lines"
      using Cons.prems True by (simp add: spawned_probing)
    from Cons.IH [OF this] show ?thesis
      by (simp add: eq)
  next
    case False
    then have nz: "\<not> exit_zero (popen w (length (spawned ?s1)) (str_split CHR '' '' ?cmd))"
      by (simp add: pip3_show_def)
    from nz show ?thesis
    proof (cases rule: run_script_not_zero [where die = False])
      case undecodable
      then show ?thesis
        unfolding an by (simp add: check_packages_undecodable)
    next
      case (reported rc out err ms)
      from reported(3) have
        "run_script w ?cmd False ?s1 =
           (Return (rc, out, err), (probing line s)\<lparr>printed := printed (probing line s) @ ms\<rparr>)"
        unfolding an by simp
      from check_packages_missing [OF this reported(1), of lines] show ?thesis
        by simp
    qed
  qed
qed

lemma check_pip3_ok:
  assumes "dependencies_ok w (length (spawned s))"
  shows "check_pip3 w s =
     (Return (),
      s\<lparr>printed := printed s @ concat (map package_report (requirements w)),
        spawned := spawned s @ map pip3_show (requirements w)\<rparr>)"
proof (cases "reqfile w")
  case (Text content)
  with assms show ?thesis
    by (simp add: dependencies_ok_def requirements_def check_pip3_Text check_packages_present)
qed (use assms in \<open>simp_all add: dependencies_ok_def\<close>)

lemma check_pip3_not_ok:
  assumes "\<not> dependencies_ok w (length (spawned s))"
  shows "fst (check_pip3 w s) \<in> {SysExit 3, Uncaught UnicodeDecodeError, Uncaught OSError}"
proof -
  have "fst (check_pip3 w s) \<noteq> Return ()"
  proof (cases "reqfile w")
    case NoFile
    then show ?thesis by (simp add: check_pip3_NoFile)
  next
    case Unreadable
    then show ?thesis by (simp add: check_pip3_Unreadable)
  next
    case (Text content)
    with assms show ?thesis
      by (simp add: dependencies_ok_def check_pip3_Text check_packages_absent)
  qed
  with check_pip3_effect [of s w] show ?thesis by auto
qed

lemma check_pip3_launches:
  "\<exists>k. spawned (snd (check_pip3 w s)) = spawned s @ map pip3_show (take k (requirements w))"
proof (cases "reqfile w")
  case NoFile
  then show ?thesis by (simp add: check_pip3_NoFile)
next
  case Unreadable
  then show ?thesis by (simp add: check_pip3_Unreadable)
next
  case (Text content)
  with check_packages_effect [of s w "read_requirements content []"] show ?thesis
    by (auto simp add: check_pip3_Text requirements_def)
qed

lemma check_config_ok:
  assumes "configuration_ok w (length (spawned s))"
  shows "check_config w s =
     (Return (),
      s\<lparr>printed := printed s @ config_report w,
        spawned := spawned s @ [str_split CHR '' '' (config_script w)]\<rparr>)"
proof -
  let ?s1 = "s\<lparr>printed := printed s @ [''??: Checking configuration'']\<rparr>"
  from assms obtain dir where d: "environ w ''PATTOO_CONFIGDIR'' = Some dir" "isdir w dir"
    and z: "exit_zero (popen w (length (spawned s)) (str_split CHR '' '' (config_script w)))"
    by (auto simp: configuration_ok_def split: option.splits)
  from z obtain out err where
    "popen w (length (spawned ?s1)) (str_split CHR '' '' (config_script w)) = Completed 0 out err"
    by (auto simp: exit_zero_iff)
  from run_script_zero [OF this, of True] show ?thesis
    by (simp add: check_config_run [OF d] announced_def config_report_def)
qed

lemma check_config_not_ok:
  assumes "\<not> configuration_ok w (length (spawned s))"
  shows "fst (check_config w s) \<in> {SysExit 3, SysExit 2, Uncaught UnicodeDecodeError}"
proof (cases "environ w ''PATTOO_CONFIGDIR''")
  case None
  then show ?thesis by (simp add: check_config_unset)
next
  case (Some dir)
  show ?thesis
  proof (cases "isdir w dir")
    case False
    with Some show ?thesis by (simp add: check_config_notdir)
  next
    case True
    let ?s1 = "s\<lparr>printed := printed s @ [''??: Checking configuration'']\<rparr>"
    from assms Some True have
      nz: "\<not> exit_zero (popen w (length (spawned ?s1)) (str_split CHR '' '' (config_script w)))"
      by (simp add: configuration_ok_def)
    from nz show ?thesis
      by (cases rule: run_script_not_zero [where die = True])
         (simp_all add: check_config_run [OF Some True])
  qed
qed

lemma check_config_begins:
  "\<exists>ls. printed (snd (check_config w s)) = printed s @ ''??: Checking configuration'' # ls"
proof (cases "environ w ''PATTOO_CONFIGDIR''")
  case None
  then show ?thesis by (simp add: check_config_unset)
next
  case (Some dir)
  show ?thesis
  proof (cases "isdir w dir")
    case False
    with Some show ?thesis by (simp add: check_config_notdir)
  next
    case True
    show ?thesis
      by (cases rule: run_script_cases [of w "config_script w" True
            "s\<lparr>printed := printed s @ [''??: Checking configuration'']\<rparr>"])
         (simp_all add: check_config_run [OF Some True] announced_def)
  qed
qed

lemma check_pip3_ignores_configuration:
  "check_pip3 (w\<lparr>environ := e, isdir := d\<rparr>) s = check_pip3 w s"
proof -
  have rs: "run_script (w\<lparr>environ := e, isdir := d\<rparr>) = run_script w"
    by (intro ext) (simp add: run_script_def communicate_def)
  have "check_packages (w\<lparr>environ := e, isdir := d\<rparr>) lines s = check_packages w lines s"
    for lines s
    by (induction lines arbitrary: s) (simp_all add: check_packages_Cons rs split: prod.splits outcome.splits)
  then show ?thesis
    by (cases "reqfile w")
       (simp_all add: check_pip3_NoFile check_pip3_Unreadable check_pip3_Text
          requirements_path_def)
qed

lemma main_stops_at_check_pip3:
  assumes "fst (check_pip3 w s) \<noteq> Return ()"
  shows "main w s = check_pip3 w s"
proof -
  obtain r s1 where p: "check_pip3 w s = (r, s1)" by fastforce
  with assms show ?thesis
    by (cases r) (simp_all add: main_cases)
qed

lemma main_stops_at_check_config:
  assumes "check_pip3 w s = (Return (), s1)" and "fst (check_config w s1) \<noteq> Return ()"
  shows "main w s = check_config w s1"
proof -
  obtain r s2 where c: "check_config w s1 = (r, s2)" by fastforce
  with assms show ?thesis
    by (cases r) (simp_all add: main_cases)
qed

lemma main_completes:
  assumes "check_pip3 w s = (Return (), s1)" and "check_config w s1 = (Return (), s2)"
  shows "main w s = (Return (), s2\<lparr>printed := printed s2 @ [next_steps_message]\<rparr>)"
  using assms by (simp add: main_cases)

lemma dependencies_ok_ignores_configuration:
  "dependencies_ok (w\<lparr>environ := e, isdir := d\<rparr>) n = dependencies_ok w n"
proof -
  have "packages_present (w\<lparr>environ := e, isdir := d\<rparr>) n lines = packages_present w n lines"
    for lines n
    by (induction lines arbitrary: n) simp_all
  then show ?thesis
    by (simp add: dependencies_ok_def split: textfile.splits)
qed

text \<open>
  C7. \<open>main\<close> runs the dependency check, then the configuration check, then prints
  the next-steps message, and each check is fatal when it fails.
  When the dependencies and the configuration are in order, \<open>main\<close> returns, having
  printed the report of every package, then the report of the configuration, then the
  next-steps message, and having launched \<open>pip3 show\<close> for every package and then the
  configuration script.
  When the dependencies are not in order, the run ends with exit code 3 or an uncaught
  exception, only \<open>pip3 show\<close> commands were launched, and the run is the same whatever
  the environment and the directories are: the configuration is never looked at.
  When the dependencies are in order and the configuration is not, the run ends with
  exit code 3 or 2 or an uncaught exception, after the reports of all packages and the
  first line of the configuration check.
  The next-steps message is printed exactly when both are in order.
\<close>

theorem install_stages_in_order:
  "(dependencies_ok w (length (spawned s)) \<and>
    configuration_ok w (length (spawned s) + length (requirements w)) \<longrightarrow>
      main w s =
        (Return (),
         s\<lparr>printed := printed s @ concat (map package_report (requirements w)) @
              config_report w @ [next_steps_message],
           spawned := spawned s @ map pip3_show (requirements w) @
              [str_split CHR '' '' (config_script w)]\<rparr>)) \<and>
   (\<not> dependencies_ok w (length (spawned s)) \<longrightarrow>
      fst (main w s) \<in> {SysExit 3, Uncaught UnicodeDecodeError, Uncaught OSError} \<and>
      (\<exists>k. spawned (snd (main w s)) = spawned s @ map pip3_show (take k (requirements w))) \<and>
      main (w\<lparr>environ := e, isdir := d\<rparr>) s = main w s) \<and>
   (dependencies_ok w (length (spawned s)) \<and>
    \<not> configuration_ok w (length (spawned s) + length (requirements w)) \<longrightarrow>
      fst (main w s) \<in> {SysExit 3, SysExit 2, Uncaught UnicodeDecodeError} \<and>
      (\<exists>ls. printed (snd (main w s)) =
         printed s @ concat (map package_report (requirements w)) @
         ''??: Checking configuration'' # ls)) \<and>
   (next_steps_message \<notin> set (printed s) \<longrightarrow>
      (next_steps_message \<in> set (printed (snd (main w s))) \<longleftrightarrow>
       dependencies_ok w (length (spawned s)) \<and>
       configuration_ok w (length (spawned s) + length (requirements w))))"
proof -
  let ?n = "length (spawned s)"
  let ?s1 = "s\<lparr>printed := printed s @ concat (map package_report (requirements w)),
               spawned := spawned s @ map pip3_show (requirements w)\<rparr>"
  have both: "main w s =
        (Return (),
         s\<lparr>printed := printed s @ concat (map package_report (requirements w)) @
              config_report w @ [next_steps_message],
           spawned := spawned s @ map pip3_show (requirements w) @
              [str_split CHR '' '' (config_script w)]\<rparr>)"
    if d: "dependencies_ok w ?n" and c: "configuration_ok w (?n + length (requirements w))"
  proof -
    have p: "check_pip3 w s = (Return (), ?s1)"
      using d by (rule check_pip3_ok)
    have "configuration_ok w (length (spawned ?s1))"
      using c by simp
    from main_completes [OF p check_config_ok [OF this]] show ?thesis
      by simp
  qed
  have first: "main w s = check_pip3 w s \<and>
      fst (main w s) \<in> {SysExit 3, Uncaught UnicodeDecodeError, Uncaught OSError}"
    if d: "\<not> dependencies_ok w ?n" for w
  proof -
    have f: "fst (check_pip3 w s) \<in> {SysExit 3, Uncaught UnicodeDecodeError, Uncaught OSError}"
      using d by (rule check_pip3_not_ok)
    then have "fst (check_pip3 w s) \<noteq> Return ()" by auto
    then have "main w s = check_pip3 w s" by (rule main_stops_at_check_pip3)
    with f show ?thesis by simp
  qed
  have second: "main w s = check_config w ?s1 \<and>
      fst (main w s) \<in> {SysExit 3, SysExit 2, Uncaught UnicodeDecodeError}"
    if d: "dependencies_ok w ?n" and c: "\<not> configuration_ok w (?n + length (requirements w))"
  proof -
    have p: "check_pip3 w s = (Return (), ?s1)"
      using d by (rule check_pip3_ok)
    have "\<not> configuration_ok w (length (spawned ?s1))"
      using c by simp
    then have f: "fst (check_config w ?s1) \<in> {SysExit 3, SysExit 2, Uncaught UnicodeDecodeError}"
      by (rule check_config_not_ok)
    then have "fst (check_config w ?s1) \<noteq> Return ()" by auto
    with p have "main w s = check_config w ?s1" by (rule main_stops_at_check_config)
    with f show ?thesis by simp
  qed
  have c1: "dependencies_ok w ?n \<and> configuration_ok w (?n + length (requirements w)) \<longrightarrow>
      main w s =
        (Return (),
         s\<lparr>printed := printed s @ concat (map package_report (requirements w)) @
              config_report w @ [next_steps_message],
           spawned := spawned s @ map pip3_show (requirements w) @
              [str_split CHR '' '' (config_script w)]\<rparr>)"
    using both by blast
  have c2: "\<not> dependencies_ok w ?n \<longrightarrow>
      fst (main w s) \<in> {SysExit 3, Uncaught UnicodeDecodeError, Uncaught OSError} \<and>
      (\<exists>k. spawned (snd (main w s)) = spawned s @ map pip3_show (take k (requirements w))) \<and>
      main (w\<lparr>environ := e, isdir := d\<rparr>) s = main w s"
  proof
    assume d: "\<not> dependencies_ok w ?n"
    then have d': "\<not> dependencies_ok (w\<lparr>environ := e, isdir := d\<rparr>) ?n"
      by (simp add: dependencies_ok_ignores_configuration)
    from first [OF d] have m: "main w s = check_pip3 w s"
      and f: "fst (main w s) \<in> {SysExit 3, Uncaught UnicodeDecodeError, Uncaught OSError}"
      by blast+
    from first [OF d'] have
      "main (w\<lparr>environ := e, isdir := d\<rparr>) s = check_pip3 (w\<lparr>environ := e, isdir := d\<rparr>) s"
      by blast
    then have i: "main (w\<lparr>environ := e, isdir := d\<rparr>) s = main w s"
      by (simp only: m check_pip3_ignores_configuration)
    from check_pip3_launches [of w s] have
      l: "\<exists>k. spawned (snd (main w s)) = spawned s @ map pip3_show (take k (requirements w))"
      by (simp only: m)
    from f l i
    show "fst (main w s) \<in> {SysExit 3, Uncaught UnicodeDecodeError, Uncaught OSError} \<and>
      (\<exists>k. spawned (snd (main w s)) = spawned s @ map pip3_show (take k (requirements w))) \<and>
      main (w\<lparr>environ := e, isdir := d\<rparr>) s = main w s"
      by blast
  qed
  have c3: "dependencies_ok w ?n \<and> \<not> configuration_ok w (?n + length (requirements w)) \<longrightarrow>
      fst (main w s) \<in> {SysExit 3, SysExit 2, Uncaught UnicodeDecodeError} \<and>
      (\<exists>ls. printed (snd (main w s)) =
         printed s @ concat (map package_report (requirements w)) @
         ''??: Checking configuration'' # ls)"
  proof
    assume a: "dependencies_ok w ?n \<and> \<not> configuration_ok w (?n + length (requirements w))"
    from second [of] a have m: "main w s = check_config w ?s1"
      and f: "fst (main w s) \<in> {SysExit 3, SysExit 2, Uncaught UnicodeDecodeError}"
      by blast+
    from check_config_begins [of w ?s1] obtain ls where
      "printed (snd (check_config w ?s1)) = printed ?s1 @ ''??: Checking configuration'' # ls"
      by blast
    then have "printed (snd (main w s)) =
         printed s @ concat (map package_report (requirements w)) @
         ''??: Checking configuration'' # ls"
      by (simp add: m)
    with f show "fst (main w s) \<in> {SysExit 3, SysExit 2, Uncaught UnicodeDecodeError} \<and>
      (\<exists>ls. printed (snd (main w s)) =
         printed s @ concat (map package_report (requirements w)) @
         ''??: Checking configuration'' # ls)"
      by blast
  qed
  have c4: "next_steps_message \<notin> set (printed s) \<longrightarrow>
      (next_steps_message \<in> set (printed (snd (main w s))) \<longleftrightarrow>
       dependencies_ok w ?n \<and> configuration_ok w (?n + length (requirements w)))"
  proof
    assume fresh: "next_steps_message \<notin> set (printed s)"
    show "next_steps_message \<in> set (printed (snd (main w s))) \<longleftrightarrow>
       dependencies_ok w ?n \<and> configuration_ok w (?n + length (requirements w))"
    proof (cases "dependencies_ok w ?n")
      case False
      from first [OF False] have "main w s = check_pip3 w s" by simp
      moreover have "extends s (snd (check_pip3 w s))"
        using check_pip3_effect [of s w] by simp
      then have "next_steps_message \<notin> set (printed (snd (check_pip3 w s)))"
        using fresh by (rule extends_keeps_absent)
      ultimately show ?thesis using False by simp
    next
      case True
      show ?thesis
      proof (cases "configuration_ok w (?n + length (requirements w))")
        case c: True
        from both [OF True c] True c show ?thesis by simp
      next
        case c: False
        from second [OF True c] have m: "main w s = check_config w ?s1" by simp
        have "check_pip3 w s = (Return (), ?s1)"
          using True by (rule check_pip3_ok)
        with check_pip3_effect [of s w] have "extends s ?s1" by simp
        then have "next_steps_message \<notin> set (printed ?s1)"
          using fresh by (rule extends_keeps_absent)
        moreover have "extends ?s1 (snd (check_config w ?s1))"
          using check_config_effect [of ?s1 w] by simp
        ultimately have "next_steps_message \<notin> set (printed (snd (check_config w ?s1)))"
          by (rule extends_keeps_absent [rotated])
        with m True c show ?thesis by simp
      qed
    qed
  qed
  from c1 c2 c3 c4 show ?thesis by blast
qed

theorem install_stages_in_order_witness:
  "main example_world start =
     (Return (),
      \<lparr>printed =
         [''??: Checking package requests'', ''Running Command: \"pip3 show requests\"'',
          ''OK: package requests>=2.0'',
          ''??: Checking package PyYAML'', ''Running Command: \"pip3 show PyYAML\"'',
          ''OK: package PyYAML'',
          ''??: Checking configuration'',
          ''Running Command: \"/opt/pattoo-web/setup/_check_config.py\"'',
          ''OK: Configuration check passed'', next_steps_message],
       spawned =
         [[''pip3'', ''show'', ''requests''], [''pip3'', ''show'', ''PyYAML''],
          [''/opt/pattoo-web/setup/_check_config.py'']]\<rparr>) \<and>
   fst (main garbled start) \<in> {SysExit 3, Uncaught UnicodeDecodeError, Uncaught OSError} \<and>
   fst (main (example_world\<lparr>environ := \<lambda>k. None\<rparr>) start)
     \<in> {SysExit 3, SysExit 2, Uncaught UnicodeDecodeError} \<and>
   next_steps_message \<notin> set (printed (snd (main (example_world\<lparr>environ := \<lambda>k. None\<rparr>) start)))"
proof -
  let ?unset = "example_world\<lparr>environ := \<lambda>k. None\<rparr>"
  have r: "requirements example_world = [''requests>=2.0'', ''PyYAML'']"
    by code_simp
  have d: "dependencies_ok example_world (length (spawned start))"
    by code_simp
  have c: "configuration_ok example_world
      (length (spawned start) + length (requirements example_world))"
    by code_simp
  have g: "\<not> dependencies_ok garbled (length (spawned start))"
    by code_simp
  have du: "dependencies_ok ?unset (length (spawned start))"
    by code_simp
  have cu: "\<not> configuration_ok ?unset (length (spawned start) + length (requirements ?unset))"
    by code_simp
  have fresh: "next_steps_message \<notin> set (printed start)"
    by (simp add: start_def)
  have reports: "concat (map package_report [''requests>=2.0'', ''PyYAML'']) =
      [''??: Checking package requests'', ''Running Command: \"pip3 show requests\"'',
       ''OK: package requests>=2.0'',
       ''??: Checking package PyYAML'', ''Running Command: \"pip3 show PyYAML\"'',
       ''OK: package PyYAML'']"
    by code_simp
  have argvs: "map pip3_show [''requests>=2.0'', ''PyYAML''] =
      [[''pip3'', ''show'', ''requests''], [''pip3'', ''show'', ''PyYAML'']]"
    by code_simp
  have script: "str_split CHR '' '' (config_script example_world) =
      [''/opt/pattoo-web/setup/_check_config.py'']"
    by code_simp
  have creport: "config_report example_world =
      [''??: Checking configuration'',
       ''Running Command: \"/opt/pattoo-web/setup/_check_config.py\"'',
       ''OK: Configuration check passed'']"
    by code_simp
  from install_stages_in_order [of example_world start] d c
  have "main example_world start =
        (Return (),
         start\<lparr>printed := printed start @ concat (map package_report (requirements example_world)) @
              config_report example_world @ [next_steps_message],
           spawned := spawned start @ map pip3_show (requirements example_world) @
              [str_split CHR '' '' (config_script example_world)]\<rparr>)"
    by blast
  then have one: "main example_world start =
     (Return (),
      \<lparr>printed =
         [''??: Checking package requests'', ''Running Command: \"pip3 show requests\"'',
          ''OK: package requests>=2.0'',
          ''??: Checking package PyYAML'', ''Running Command: \"pip3 show PyYAML\"'',
          ''OK: package PyYAML'',
          ''??: Checking configuration'',
          ''Running Command: \"/opt/pattoo-web/setup/_check_config.py\"'',
          ''OK: Configuration check passed'', next_steps_message],
       spawned =
         [[''pip3'', ''show'', ''requests''], [''pip3'', ''show'', ''PyYAML''],
          [''/opt/pattoo-web/setup/_check_config.py'']]\<rparr>)"
    by (simp only: r reports argvs script creport) (simp add: start_def)
  from install_stages_in_order [of garbled start] g
  have two: "fst (main garbled start) \<in> {SysExit 3, Uncaught UnicodeDecodeError, Uncaught OSError}"
    by blast
  from install_stages_in_order [of ?unset start] du cu
  have three: "fst (main ?unset start) \<in> {SysExit 3, SysExit 2, Uncaught UnicodeDecodeError}"
    by blast
  from install_stages_in_order [of ?unset start] fresh cu
  have four: "next_steps_message \<notin> set (printed (snd (main ?unset start)))"
    by blast
  from one two three four show ?thesis by blast
qed

section \<open>\<open>main\<close> of \<open>pattoo_webd\<close>\<close>

lemma webd_main_cases:
  assumes "new_config r = Return config"
  shows "webd_main r s =
     (case control_result r (length (controlled s))
             (AgentAPI PATTOO_WEBD_NAME PATTOO_WEBD_PROXY (PATTOO_WEBD r) config) of
        Return u \<Rightarrow>
          (control_result r (Suc (length (controlled s))) (Agent PATTOO_WEBD_PROXY config),
           s\<lparr>built := built s @
                [Agent PATTOO_WEBD_PROXY config,
                 AgentAPI PATTOO_WEBD_NAME PATTOO_WEBD_PROXY (PATTOO_WEBD r) config],
             controlled := controlled s @
                [AgentAPI PATTOO_WEBD_NAME PATTOO_WEBD_PROXY (PATTOO_WEBD r) config,
                 Agent PATTOO_WEBD_PROXY config]\<rparr>)
      | SysExit c \<Rightarrow>
          (SysExit c,
           s\<lparr>built := built s @
                [Agent PATTOO_WEBD_PROXY config,
                 AgentAPI PATTOO_WEBD_NAME PATTOO_WEBD_PROXY (PATTOO_WEBD r) config],
             controlled := controlled s @
                [AgentAPI PATTOO_WEBD_NAME PATTOO_WEBD_PROXY (PATTOO_WEBD r) config]\<rparr>)
      | Uncaught e \<Rightarrow>
          (Uncaught e,
           s\<lparr>built := built s @
                [Agent PATTOO_WEBD_PROXY config,
                 AgentAPI PATTOO_WEBD_NAME PATTOO_WEBD_PROXY (PATTOO_WEBD r) config],
             controlled := controlled s @
                [AgentAPI PATTOO_WEBD_NAME PATTOO_WEBD_PROXY (PATTOO_WEBD r) config]\<rparr>))"
  using assms
  by (simp add: webd_main_def andthen_def Config_def build_def control_def
      split: outcome.splits)

lemma webd_main_no_config:
  assumes "\<forall>config. new_config r \<noteq> Return config"
  shows "webd_main r s = (case new_config r of
      Return config \<Rightarrow> (Return (), s) | SysExit c \<Rightarrow> (SysExit c, s) | Uncaught e \<Rightarrow> (Uncaught e, s))"
  using assms
  by (simp add: webd_main_def andthen_def Config_def split: outcome.splits)

text \<open>
  C8. Once \<open>Config()\<close> has returned and the two descriptors are built, the first control
  call is the API agent's. When it returns, the second and last is the proxy agent's;
  when it fails, the run ends with that failure and the API agent's call is the only
  one. When \<open>Config()\<close> fails nothing is built and there is no control call.
\<close>

theorem api_control_precedes_proxy:
  "(\<forall>config.
      new_config r = Return config \<longrightarrow>
      (control_result r (length (controlled s))
         (AgentAPI PATTOO_WEBD_NAME PATTOO_WEBD_PROXY (PATTOO_WEBD r) config) = Return () \<longrightarrow>
       webd_main r s =
         (control_result r (Suc (length (controlled s))) (Agent PATTOO_WEBD_PROXY config),
          s\<lparr>built := built s @
               [Agent PATTOO_WEBD_PROXY config,
                AgentAPI PATTOO_WEBD_NAME PATTOO_WEBD_PROXY (PATTOO_WEBD r) config],
            controlled := controlled s @
               [AgentAPI PATTOO_WEBD_NAME PATTOO_WEBD_PROXY (PATTOO_WEBD r) config,
                Agent PATTOO_WEBD_PROXY config]\<rparr>)) \<and>
      (control_result r (length (controlled s))
         (AgentAPI PATTOO_WEBD_NAME PATTOO_WEBD_PROXY (PATTOO_WEBD r) config) \<noteq> Return () \<longrightarrow>
       webd_main r s =
         (control_result r (length (controlled s))
            (AgentAPI PATTOO_WEBD_NAME PATTOO_WEBD_PROXY (PATTOO_WEBD r) config),
          s\<lparr>built := built s @
               [Agent PATTOO_WEBD_PROXY config,
                AgentAPI PATTOO_WEBD_NAME PATTOO_WEBD_PROXY (PATTOO_WEBD r) config],
            controlled := controlled s @
               [AgentAPI PATTOO_WEBD_NAME PATTOO_WEBD_PROXY (PATTOO_WEBD r) config]\<rparr>))) \<and>
   (\<forall>c. new_config r = SysExit c \<longrightarrow> webd_main r s = (SysExit c, s)) \<and>
   (\<forall>e. new_config r = Uncaught e \<longrightarrow> webd_main r s = (Uncaught e, s))"
proof (intro conjI allI impI)
  fix config
  assume "new_config r = Return config"
    and "control_result r (length (controlled s))
      (AgentAPI PATTOO_WEBD_NAME PATTOO_WEBD_PROXY (PATTOO_WEBD r) config) = Return ()"
  then show "webd_main r s =
      (control_result r (Suc (length (controlled s))) (Agent PATTOO_WEBD_PROXY config),
       s\<lparr>built := built s @
            [Agent PATTOO_WEBD_PROXY config,
             AgentAPI PATTOO_WEBD_NAME PATTOO_WEBD_PROXY (PATTOO_WEBD r) config],
         controlled := controlled s @
            [AgentAPI PATTOO_WEBD_NAME PATTOO_WEBD_PROXY (PATTOO_WEBD r) config,
             Agent PATTOO_WEBD_PROXY config]\<rparr>)"
    by (simp add: webd_main_cases)
next
  fix config
  assume "new_config r = Return config"
    and "control_result r (length (controlled s))
      (AgentAPI PATTOO_WEBD_NAME PATTOO_WEBD_PROXY (PATTOO_WEBD r) config) \<noteq> Return ()"
  then show "webd_main r s =
      (control_result r (length (controlled s))
         (AgentAPI PATTOO_WEBD_NAME PATTOO_WEBD_PROXY (PATTOO_WEBD r) config),
       s\<lparr>built := built s @
            [Agent PATTOO_WEBD_PROXY config,
             AgentAPI PATTOO_WEBD_NAME PATTOO_WEBD_PROXY (PATTOO_WEBD r) config],
         controlled := controlled s @
            [AgentAPI PATTOO_WEBD_NAME PATTOO_WEBD_PROXY (PATTOO_WEBD r) config]\<rparr>)"
    by (simp add: webd_main_cases split: outcome.splits)
next
  fix c assume "new_config r = SysExit c"
  then show "webd_main r s = (SysExit c, s)"
    by (simp add: webd_main_no_config)
next
  fix e assume "new_config r = Uncaught e"
  then show "webd_main r s = (Uncaught e, s)"
    by (simp add: webd_main_no_config)
qed

theorem api_control_precedes_proxy_witness:
  "webd_main obliging \<lparr>built = [], controlled = []\<rparr> =
     (Return (),
      \<lparr>built = [Agent ''pattoo_webd-gunicorn'' ''/etc/pattoo'',
                AgentAPI ''pattoo_webd'' ''pattoo_webd-gunicorn'' () ''/etc/pattoo''],
       controlled = [AgentAPI ''pattoo_webd'' ''pattoo_webd-gunicorn'' () ''/etc/pattoo'',
                     Agent ''pattoo_webd-gunicorn'' ''/etc/pattoo'']\<rparr>) \<and>
   webd_main refusing \<lparr>built = [], controlled = []\<rparr> =
     (SysExit 1,
      \<lparr>built = [Agent ''pattoo_webd-gunicorn'' ''/etc/pattoo'',
                AgentAPI ''pattoo_webd'' ''pattoo_webd-gunicorn'' () ''/etc/pattoo''],
       controlled = [AgentAPI ''pattoo_webd'' ''pattoo_webd-gunicorn'' () ''/etc/pattoo'']\<rparr>)"
proof -
  have a: "new_config obliging = Return ''/etc/pattoo''"
    by (simp add: obliging_def)
  have b: "new_config refusing = Return ''/etc/pattoo''"
    by (simp add: refusing_def)
  from a b
    api_control_precedes_proxy [of obliging "\<lparr>built = [], controlled = []\<rparr>"]
    api_control_precedes_proxy [of refusing "\<lparr>built = [], controlled = []\<rparr>"]
  show ?thesis
    by (simp add: obliging_def refusing_def PATTOO_WEBD_NAME_def PATTOO_WEBD_PROXY_def)
qed

text \<open>
  C9. Once \<open>Config()\<close> has returned, the script builds exactly two descriptors, whatever
  the control calls do afterwards: the proxy agent, named \<open>pattoo_webd\<close> followed by
  \<open>-gunicorn\<close>, and the API agent, named \<open>pattoo_webd\<close>, both carrying the configuration
  object that \<open>Config()\<close> returned; and it hands no other descriptor to \<open>control\<close>. When
  \<open>Config()\<close> fails it builds none.
\<close>

theorem two_descriptors_one_config:
  "(\<forall>config.
      new_config r = Return config \<longrightarrow>
      built (snd (webd_main r s)) =
        built s @
        [Agent PATTOO_WEBD_PROXY config,
         AgentAPI PATTOO_WEBD_NAME PATTOO_WEBD_PROXY (PATTOO_WEBD r) config] \<and>
      map agent_name (drop (length (built s)) (built (snd (webd_main r s)))) =
        [''pattoo_webd'' @ ''-gunicorn'', ''pattoo_webd''] \<and>
      map agent_config (drop (length (built s)) (built (snd (webd_main r s)))) =
        [config, config] \<and>
      set (drop (length (controlled s)) (controlled (snd (webd_main r s)))) \<subseteq>
        set (drop (length (built s)) (built (snd (webd_main r s))))) \<and>
   ((\<forall>config. new_config r \<noteq> Return config) \<longrightarrow>
      built (snd (webd_main r s)) = built s \<and> controlled (snd (webd_main r s)) = controlled s)"
proof (intro conjI allI impI)
  fix config
  assume c: "new_config r = Return config"
  show "built (snd (webd_main r s)) =
      built s @
      [Agent PATTOO_WEBD_PROXY config,
       AgentAPI PATTOO_WEBD_NAME PATTOO_WEBD_PROXY (PATTOO_WEBD r) config]"
    by (simp add: webd_main_cases [OF c] split: outcome.splits)
  then show "map agent_name (drop (length (built s)) (built (snd (webd_main r s)))) =
      [''pattoo_webd'' @ ''-gunicorn'', ''pattoo_webd'']"
    by (simp add: PATTOO_WEBD_NAME_def PATTOO_WEBD_PROXY_def)
  show "map agent_config (drop (length (built s)) (built (snd (webd_main r s)))) =
      [config, config]"
    by (simp add: webd_main_cases [OF c] split: outcome.splits)
  show "set (drop (length (controlled s)) (controlled (snd (webd_main r s)))) \<subseteq>
      set (drop (length (built s)) (built (snd (webd_main r s))))"
    by (simp add: webd_main_cases [OF c] split: outcome.splits)
next
  assume n: "\<forall>config. new_config r \<noteq> Return config"
  show "built (snd (webd_main r s)) = built s"
    by (simp add: webd_main_no_config [OF n] split: outcome.splits)
  show "controlled (snd (webd_main r s)) = controlled s"
    by (simp add: webd_main_no_config [OF n] split: outcome.splits)
qed

theorem two_descriptors_one_config_witness:
  "built (snd (webd_main refusing \<lparr>built = [], controlled = []\<rparr>)) =
     [Agent ''pattoo_webd-gunicorn'' ''/etc/pattoo'',
      AgentAPI ''pattoo_webd'' ''pattoo_webd-gunicorn'' () ''/etc/pattoo''] \<and>
   map agent_name (built (snd (webd_main refusing \<lparr>built = [], controlled = []\<rparr>))) =
     [''pattoo_webd-gunicorn'', ''pattoo_webd''] \<and>
   map agent_config (built (snd (webd_main refusing \<lparr>built = [], controlled = []\<rparr>))) =
     [''/etc/pattoo'', ''/etc/pattoo'']"
proof -
  have a: "new_config refusing = Return ''/etc/pattoo''"
    by (simp add: refusing_def)
  from a two_descriptors_one_config [of refusing "\<lparr>built = [], controlled = []\<rparr>"]
  show ?thesis
    by (simp add: refusing_def PATTOO_WEBD_NAME_def PATTOO_WEBD_PROXY_def)
qed

end
